theory Spec2Isabelle
  imports Complex_Main
begin

section \<open>Data model\<close>

text \<open>
  The application keeps its state in a hosted relational store (schema and row-level
  security policies in the SQL migration) and drives it from browser handlers
  (\<^verbatim>\<open>Purchases.tsx\<close>, \<^verbatim>\<open>Sales.tsx\<close>, \<^verbatim>\<open>Suppliers.tsx\<close>). Each handler awaits one store call
  after the other, so a handler is a function from the store before to an outcome and the
  store after.

  Numbers: the handlers compute with JavaScript numbers and the store keeps
  \<^verbatim>\<open>numeric(15,2)\<close> columns. Both are read here as exact rationals; binary rounding
  in the browser, and rounding or overflow of the column type, are outside this model.
  On whole numbers below \<open>10 ^ 13\<close> in magnitude the browser's doubles and the columns
  are both exact, and a statement about an amount that a handler computes and the store
  keeps is made for such numbers only (\<open>exact_sale\<close> below).
  Row identifiers are the text of a uuid; the empty string is the form's "nothing
  selected".
\<close>

type_synonym uuid = string

datatype role = Admin | Manager | Staff

datatype status = Pending | Completed | Cancelled

text \<open>\<^verbatim>\<open>type OrderItem = { product_id; quantity; unit_price }\<close>, the form's line.\<close>

record order_item =
  product_id :: uuid
  quantity :: rat
  unit_price :: rat

text \<open>
  A row of \<^verbatim>\<open>purchase_order_items\<close> or \<^verbatim>\<open>sales_order_items\<close>: the line, the header it
  belongs to (\<^verbatim>\<open>purchase_order_id\<close>, \<^verbatim>\<open>sales_order_id\<close>) and \<^verbatim>\<open>total_price\<close>.
\<close>

record item_row = order_item +
  order_ref :: uuid
  total_price :: rat

text \<open>
  The columns the two header tables share, then each table's own. The columns
  \<^verbatim>\<open>notes\<close>, \<^verbatim>\<open>created_by\<close>, \<^verbatim>\<open>order_date\<close> and \<^verbatim>\<open>created_at\<close> are written once and never
  read by the handlers; they are left out.
\<close>

record order_row =
  order_id :: uuid
  order_number :: string
  total_amount :: rat
  paid_amount :: rat
  status :: status

record purchase_order = order_row +
  supplier_id :: uuid

record sales_order = order_row +
  customer_id :: "uuid option"
  discount :: rat

text \<open>
  The store. Of \<^verbatim>\<open>profiles\<close> the policies read the role; of \<^verbatim>\<open>products\<close> the handlers
  read and write \<^verbatim>\<open>stock_quantity\<close>; of \<^verbatim>\<open>suppliers\<close> and \<^verbatim>\<open>customers\<close> they read and
  write \<^verbatim>\<open>debt_balance\<close>. Each of these tables is the map from a row's id to that column.
\<close>

record database =
  profiles :: "uuid \<rightharpoonup> role"
  products :: "uuid \<rightharpoonup> rat"
  suppliers :: "uuid \<rightharpoonup> rat"
  customers :: "uuid \<rightharpoonup> rat"
  purchase_orders :: "purchase_order list"
  purchase_order_items :: "item_row list"
  sales_orders :: "sales_order list"
  sales_order_items :: "item_row list"

text \<open>
  The browser's copy of a product, loaded by \<^verbatim>\<open>loadProducts\<close> when the sales page opens
  (\<^verbatim>\<open>id\<close> and \<^verbatim>\<open>stock_quantity\<close>; the name, unit and price are not read by
  \<^verbatim>\<open>handleSubmit\<close> except for the text of an alert).
\<close>

record product =
  p_id :: uuid
  stock_quantity :: rat

text \<open>The form state \<^verbatim>\<open>formData\<close> of the purchase and of the sales page.\<close>

record formData =
  form_paid_amount :: rat

record purchase_formData = formData +
  form_supplier_id :: uuid

record sales_formData = formData +
  form_customer_id :: uuid
  form_discount :: rat

section \<open>Row-level security\<close>

datatype table =
  Categories | Products | Suppliers | Customers
  | Purchase_orders | Purchase_order_items
  | Sales_orders | Sales_order_items
  | Payments | Cash_transactions

datatype operation = SELECT | INSERT | UPDATE | DELETE

text \<open>
  Every policy is \<^verbatim>\<open>TO authenticated\<close>: a request without a signed-in user
  (\<open>caller = None\<close>) matches no policy and is denied.
\<close>

definition authenticated :: "uuid option \<Rightarrow> bool" where
  "authenticated caller = (caller \<noteq> None)"

text \<open>
  \<^verbatim>\<open>EXISTS (SELECT 1 FROM profiles WHERE profiles.id = auth.uid() AND profiles.role IN (...))\<close>
\<close>

definition profile_role_in :: "database \<Rightarrow> uuid option \<Rightarrow> role list \<Rightarrow> bool" where
  "profile_role_in db caller rs =
     (case caller of
        None \<Rightarrow> False
      | Some u \<Rightarrow> (case profiles db u of None \<Rightarrow> False | Some r \<Rightarrow> r \<in> set rs))"

fun rls_permits :: "database \<Rightarrow> uuid option \<Rightarrow> table \<Rightarrow> operation \<Rightarrow> bool" where
  "rls_permits db caller t SELECT = authenticated caller"
| "rls_permits db caller Customers INSERT = authenticated caller"
| "rls_permits db caller Sales_orders INSERT = authenticated caller"
| "rls_permits db caller Sales_order_items INSERT = authenticated caller"
| "rls_permits db caller t INSERT =
     (authenticated caller \<and> profile_role_in db caller [Admin, Manager])"
| "rls_permits db caller t UPDATE =
     (authenticated caller \<and> profile_role_in db caller [Admin, Manager])"
| "rls_permits db caller t DELETE =
     (authenticated caller \<and> profile_role_in db caller [Admin])"

section \<open>Store operations\<close>

datatype store_error = Rls_violation | Unique_violation | Foreign_key_violation

text \<open>
  \<^verbatim>\<open>supabase.from('suppliers').insert([formData])\<close>: the policy's \<^verbatim>\<open>WITH CHECK\<close>, then the
  new row with the column default \<^verbatim>\<open>debt_balance = 0\<close>. The id is the store's
  \<^verbatim>\<open>gen_random_uuid()\<close>, taken as an argument.
\<close>

definition insert_supplier :: "uuid option \<Rightarrow> database \<Rightarrow> uuid \<Rightarrow> store_error + database" where
  "insert_supplier caller db new_id =
     (if \<not> rls_permits db caller Suppliers INSERT then Inl Rls_violation
      else Inr (db\<lparr>suppliers := (suppliers db)(new_id \<mapsto> 0)\<rparr>))"

text \<open>
  Header inserts: the policy, \<^verbatim>\<open>order_number text UNIQUE\<close>, and the reference to the
  counterparty (\<^verbatim>\<open>supplier_id uuid REFERENCES suppliers(id)\<close>,
  \<^verbatim>\<open>customer_id uuid REFERENCES customers(id)\<close>, the latter nullable).
\<close>

definition insert_purchase_order ::
  "uuid option \<Rightarrow> database \<Rightarrow> purchase_order \<Rightarrow> store_error + database" where
  "insert_purchase_order caller db row =
     (if \<not> rls_permits db caller Purchase_orders INSERT then Inl Rls_violation
      else if order_number row \<in> set (map order_number (purchase_orders db))
        then Inl Unique_violation
      else if suppliers db (supplier_id row) = None then Inl Foreign_key_violation
      else Inr (db\<lparr>purchase_orders := purchase_orders db @ [row]\<rparr>))"

definition insert_sales_order ::
  "uuid option \<Rightarrow> database \<Rightarrow> sales_order \<Rightarrow> store_error + database" where
  "insert_sales_order caller db row =
     (if \<not> rls_permits db caller Sales_orders INSERT then Inl Rls_violation
      else if order_number row \<in> set (map order_number (sales_orders db))
        then Inl Unique_violation
      else if (case customer_id row of None \<Rightarrow> False | Some c \<Rightarrow> customers db c = None)
        then Inl Foreign_key_violation
      else Inr (db\<lparr>sales_orders := sales_orders db @ [row]\<rparr>))"

text \<open>
  Line inserts, one statement for all lines (all or none): the policy, the reference to
  the header and \<^verbatim>\<open>product_id uuid REFERENCES products(id)\<close>.
\<close>

definition insert_purchase_order_items ::
  "uuid option \<Rightarrow> database \<Rightarrow> item_row list \<Rightarrow> store_error + database" where
  "insert_purchase_order_items caller db rows =
     (if \<not> rls_permits db caller Purchase_order_items INSERT then Inl Rls_violation
      else if list_ex (\<lambda>r. order_ref r \<notin> set (map order_id (purchase_orders db))) rows
        then Inl Foreign_key_violation
      else if list_ex (\<lambda>r. products db (product_id r) = None) rows
        then Inl Foreign_key_violation
      else Inr (db\<lparr>purchase_order_items := purchase_order_items db @ rows\<rparr>))"

definition insert_sales_order_items ::
  "uuid option \<Rightarrow> database \<Rightarrow> item_row list \<Rightarrow> store_error + database" where
  "insert_sales_order_items caller db rows =
     (if \<not> rls_permits db caller Sales_order_items INSERT then Inl Rls_violation
      else if list_ex (\<lambda>r. order_ref r \<notin> set (map order_id (sales_orders db))) rows
        then Inl Foreign_key_violation
      else if list_ex (\<lambda>r. products db (product_id r) = None) rows
        then Inl Foreign_key_violation
      else Inr (db\<lparr>sales_order_items := sales_order_items db @ rows\<rparr>))"

text \<open>
  \<^verbatim>\<open>.select('stock_quantity').eq('id', p).single()\<close>: the row when it exists and the
  \<^verbatim>\<open>SELECT\<close> policy shows it, else no data.
\<close>

definition select_stock_quantity :: "uuid option \<Rightarrow> database \<Rightarrow> uuid \<Rightarrow> rat option" where
  "select_stock_quantity caller db p =
     (if rls_permits db caller Products SELECT then products db p else None)"

text \<open>
  \<^verbatim>\<open>.update({ stock_quantity: v }).eq('id', p)\<close>: the \<^verbatim>\<open>UPDATE\<close> policy's \<^verbatim>\<open>USING\<close>
  decides which rows the statement reaches; a row it does not reach stays as it is. The
  handlers do not look at the statement's result.
\<close>

definition update_stock_quantity :: "uuid option \<Rightarrow> database \<Rightarrow> uuid \<Rightarrow> rat \<Rightarrow> database" where
  "update_stock_quantity caller db p v =
     (if rls_permits db caller Products UPDATE \<and> products db p \<noteq> None
      then db\<lparr>products := (products db)(p \<mapsto> v)\<rparr> else db)"

definition select_supplier_debt :: "uuid option \<Rightarrow> database \<Rightarrow> uuid \<Rightarrow> rat option" where
  "select_supplier_debt caller db s =
     (if rls_permits db caller Suppliers SELECT then suppliers db s else None)"

definition update_supplier_debt :: "uuid option \<Rightarrow> database \<Rightarrow> uuid \<Rightarrow> rat \<Rightarrow> database" where
  "update_supplier_debt caller db s v =
     (if rls_permits db caller Suppliers UPDATE \<and> suppliers db s \<noteq> None
      then db\<lparr>suppliers := (suppliers db)(s \<mapsto> v)\<rparr> else db)"

definition select_customer_debt :: "uuid option \<Rightarrow> database \<Rightarrow> uuid \<Rightarrow> rat option" where
  "select_customer_debt caller db c =
     (if rls_permits db caller Customers SELECT then customers db c else None)"

definition update_customer_debt :: "uuid option \<Rightarrow> database \<Rightarrow> uuid \<Rightarrow> rat \<Rightarrow> database" where
  "update_customer_debt caller db c v =
     (if rls_permits db caller Customers UPDATE \<and> customers db c \<noteq> None
      then db\<lparr>customers := (customers db)(c \<mapsto> v)\<rparr> else db)"

section \<open>Handlers\<close>

text \<open>
  What a handler run ends with: one of its alerts followed by \<^verbatim>\<open>return\<close>, or the end of
  the function (the modal is closed and the form reset).
\<close>

datatype outcome =
  No_items
  | Insufficient_stock uuid
  | Order_error store_error
  | Items_error store_error
  | Supplier_error store_error
  | Submitted

subsection \<open>Suppliers.tsx\<close>

text \<open>
  \<^verbatim>\<open>handleSubmit\<close> of the suppliers page. With a supplier being edited it updates contact
  columns only, none of which is part of \<open>database\<close>; otherwise it inserts.
\<close>

definition suppliers_handleSubmit ::
  "uuid option \<Rightarrow> uuid \<Rightarrow> uuid option \<Rightarrow> database \<Rightarrow> outcome \<times> database" where
  "suppliers_handleSubmit caller new_id editingSupplier db =
     (case editingSupplier of
        Some s \<Rightarrow> (Submitted, db)
      | None \<Rightarrow>
          (case insert_supplier caller db new_id of
             Inl e \<Rightarrow> (Supplier_error e, db)
           | Inr db1 \<Rightarrow> (Submitted, db1)))"

subsection \<open>Order numbers\<close>

text \<open>
  \<^verbatim>\<open>`NH${Date.now()}`\<close> and \<^verbatim>\<open>`BH${Date.now()}`\<close>: the prefix and the decimal digits of the
  clock's milliseconds, a natural number handed to the handler as \<open>now\<close>.
\<close>

definition digit_char :: "nat \<Rightarrow> char" where
  "digit_char d = ''0123456789'' ! d"

fun string_of_nat :: "nat \<Rightarrow> string" where
  "string_of_nat n =
     (if n < 10 then [digit_char n] else string_of_nat (n div 10) @ [digit_char (n mod 10)])"

declare string_of_nat.simps [simp del]

definition purchases_orderNumber :: "nat \<Rightarrow> string" where
  "purchases_orderNumber now = ''NH'' @ string_of_nat now"

definition sales_orderNumber :: "nat \<Rightarrow> string" where
  "sales_orderNumber now = ''BH'' @ string_of_nat now"

subsection \<open>Purchases.tsx\<close>

text \<open>\<^verbatim>\<open>orderItems.reduce((sum, item) => sum + (item.quantity * item.unit_price), 0)\<close>\<close>

definition purchases_calculateTotal :: "order_item list \<Rightarrow> rat" where
  "purchases_calculateTotal orderItems =
     foldl (\<lambda>sum item. sum + quantity item * unit_price item) 0 orderItems"

text \<open>The row handed to the header insert; the store's new id is \<open>new_id\<close>.\<close>

definition purchases_order_row ::
  "nat \<Rightarrow> uuid \<Rightarrow> purchase_formData \<Rightarrow> order_item list \<Rightarrow> purchase_order" where
  "purchases_order_row now new_id fd orderItems =
     \<lparr>order_id = new_id,
      order_number = purchases_orderNumber now,
      total_amount = purchases_calculateTotal orderItems,
      paid_amount = form_paid_amount fd,
      status = Completed,
      supplier_id = form_supplier_id fd\<rparr>"

text \<open>\<^verbatim>\<open>orderItems.map(item => ({ ..._order_id: orderData.id, ..., total_price: ... }))\<close>\<close>

definition order_item_rows :: "uuid \<Rightarrow> order_item list \<Rightarrow> item_row list" where
  "order_item_rows new_id orderItems =
     map (\<lambda>item. \<lparr>product_id = product_id item,
                  quantity = quantity item,
                  unit_price = unit_price item,
                  order_ref = new_id,
                  total_price = quantity item * unit_price item\<rparr>) orderItems"

text \<open>The loop over the lines: read the stock, write it back increased.\<close>

fun purchases_adjust_stock :: "uuid option \<Rightarrow> order_item list \<Rightarrow> database \<Rightarrow> database" where
  "purchases_adjust_stock caller [] db = db"
| "purchases_adjust_stock caller (item # items) db =
     (case select_stock_quantity caller db (product_id item) of
        None \<Rightarrow> purchases_adjust_stock caller items db
      | Some stock \<Rightarrow>
          purchases_adjust_stock caller items
            (update_stock_quantity caller db (product_id item) (stock + quantity item)))"

text \<open>\<^verbatim>\<open>if (formData.supplier_id) { ... if (supplier) { ... } }\<close>\<close>

definition purchases_adjust_debt ::
  "uuid option \<Rightarrow> purchase_formData \<Rightarrow> rat \<Rightarrow> database \<Rightarrow> database" where
  "purchases_adjust_debt caller fd totalAmount db =
     (if form_supplier_id fd \<noteq> [] then
        (case select_supplier_debt caller db (form_supplier_id fd) of
           None \<Rightarrow> db
         | Some debt_balance \<Rightarrow>
             (let debtChange = totalAmount - form_paid_amount fd
              in update_supplier_debt caller db (form_supplier_id fd) (debt_balance + debtChange)))
      else db)"

definition purchases_handleSubmit ::
  "uuid option \<Rightarrow> nat \<Rightarrow> uuid \<Rightarrow> purchase_formData \<Rightarrow> order_item list \<Rightarrow> database
     \<Rightarrow> outcome \<times> database" where
  "purchases_handleSubmit caller now new_id fd orderItems db =
     (if orderItems = [] then (No_items, db)
      else
        (let totalAmount = purchases_calculateTotal orderItems in
         case insert_purchase_order caller db (purchases_order_row now new_id fd orderItems) of
           Inl e \<Rightarrow> (Order_error e, db)
         | Inr db1 \<Rightarrow>
             (case insert_purchase_order_items caller db1 (order_item_rows new_id orderItems) of
                Inl e \<Rightarrow> (Items_error e, db1)
              | Inr db2 \<Rightarrow>
                  (Submitted,
                   purchases_adjust_debt caller fd totalAmount
                     (purchases_adjust_stock caller orderItems db2)))))"

subsection \<open>Sales.tsx\<close>

definition calculateSubtotal :: "order_item list \<Rightarrow> rat" where
  "calculateSubtotal orderItems =
     foldl (\<lambda>sum item. sum + quantity item * unit_price item) 0 orderItems"

definition sales_calculateTotal :: "sales_formData \<Rightarrow> order_item list \<Rightarrow> rat" where
  "sales_calculateTotal fd orderItems = calculateSubtotal orderItems - form_discount fd"

text \<open>
  The stock check against the product list the page loaded: the first line whose product is
  in that list with less stock than the line asks for ends the handler; a line whose
  product is not in the list passes.
\<close>

fun check_stock :: "product list \<Rightarrow> order_item list \<Rightarrow> uuid option" where
  "check_stock loaded [] = None"
| "check_stock loaded (item # items) =
     (case find (\<lambda>p. p_id p = product_id item) loaded of
        None \<Rightarrow> check_stock loaded items
      | Some p \<Rightarrow>
          (if stock_quantity p < quantity item then Some (p_id p)
           else check_stock loaded items))"

text \<open>\<^verbatim>\<open>customer_id: formData.customer_id || null\<close>\<close>

definition sales_order_row ::
  "nat \<Rightarrow> uuid \<Rightarrow> sales_formData \<Rightarrow> order_item list \<Rightarrow> sales_order" where
  "sales_order_row now new_id fd orderItems =
     \<lparr>order_id = new_id,
      order_number = sales_orderNumber now,
      total_amount = sales_calculateTotal fd orderItems,
      paid_amount = form_paid_amount fd,
      status = Completed,
      customer_id = (if form_customer_id fd \<noteq> [] then Some (form_customer_id fd) else None),
      discount = form_discount fd\<rparr>"

fun sales_adjust_stock :: "uuid option \<Rightarrow> order_item list \<Rightarrow> database \<Rightarrow> database" where
  "sales_adjust_stock caller [] db = db"
| "sales_adjust_stock caller (item # items) db =
     (case select_stock_quantity caller db (product_id item) of
        None \<Rightarrow> sales_adjust_stock caller items db
      | Some stock \<Rightarrow>
          sales_adjust_stock caller items
            (update_stock_quantity caller db (product_id item) (stock - quantity item)))"

definition sales_adjust_debt ::
  "uuid option \<Rightarrow> sales_formData \<Rightarrow> rat \<Rightarrow> database \<Rightarrow> database" where
  "sales_adjust_debt caller fd totalAmount db =
     (if form_customer_id fd \<noteq> [] then
        (case select_customer_debt caller db (form_customer_id fd) of
           None \<Rightarrow> db
         | Some debt_balance \<Rightarrow>
             (let debtChange = totalAmount - form_paid_amount fd
              in update_customer_debt caller db (form_customer_id fd) (debt_balance + debtChange)))
      else db)"

definition sales_handleSubmit ::
  "uuid option \<Rightarrow> nat \<Rightarrow> uuid \<Rightarrow> product list \<Rightarrow> sales_formData \<Rightarrow> order_item list
     \<Rightarrow> database \<Rightarrow> outcome \<times> database" where
  "sales_handleSubmit caller now new_id loaded fd orderItems db =
     (if orderItems = [] then (No_items, db)
      else
        (case check_stock loaded orderItems of
           Some p \<Rightarrow> (Insufficient_stock p, db)
         | None \<Rightarrow>
             (let totalAmount = sales_calculateTotal fd orderItems in
              case insert_sales_order caller db (sales_order_row now new_id fd orderItems) of
                Inl e \<Rightarrow> (Order_error e, db)
              | Inr db1 \<Rightarrow>
                  (case insert_sales_order_items caller db1 (order_item_rows new_id orderItems) of
                     Inl e \<Rightarrow> (Items_error e, db1)
                   | Inr db2 \<Rightarrow>
                       (Submitted,
                        sales_adjust_debt caller fd totalAmount
                          (sales_adjust_stock caller orderItems db2))))))"

section \<open>Notions used to state the properties\<close>

text \<open>The quantity that the lines of an order ask of product \<open>p\<close>, over all its lines.\<close>

definition ordered :: "uuid \<Rightarrow> order_item list \<Rightarrow> rat" where
  "ordered p items = (\<Sum>item\<leftarrow>filter (\<lambda>item. product_id item = p) items. quantity item)"

text \<open>The outcomes that leave a new header row in the store.\<close>

fun header_persisted :: "outcome \<Rightarrow> bool" where
  "header_persisted (Items_error e) = True"
| "header_persisted Submitted = True"
| "header_persisted other = False"

text \<open>
  The numbers on which the model's arithmetic is the code's: a sum, difference or product
  of whole numbers that stays below \<open>2 ^ 53\<close> is exact in doubles, its decimal text is
  exact, and a \<^verbatim>\<open>numeric(15,2)\<close> column keeps a whole number below \<open>10 ^ 13\<close> as it is,
  neither rounding nor refusing it.
\<close>

definition whole :: "rat \<Rightarrow> bool" where
  "whole x = (rat_of_int \<lfloor>x\<rfloor> = x)"

definition column_exact :: "rat \<Rightarrow> bool" where
  "column_exact x = (whole x \<and> \<bar>x\<bar> < 10 ^ 13)"

text \<open>
  A sale all of whose amounts are such numbers: every quantity, unit price and line total,
  the paid amount, the discount, every partial sum of the subtotal and the total.
\<close>

definition exact_sale :: "sales_formData \<Rightarrow> order_item list \<Rightarrow> bool" where
  "exact_sale fd orderItems =
     (list_all (\<lambda>item. column_exact (quantity item) \<and> column_exact (unit_price item)) orderItems
      \<and> column_exact (form_paid_amount fd)
      \<and> whole (form_discount fd)
      \<and> (\<Sum>item\<leftarrow>orderItems. \<bar>quantity item * unit_price item\<bar>) + \<bar>form_discount fd\<bar> < 10 ^ 13)"

section \<open>A small shop\<close>

text \<open>
  One store for the worked examples: an admin and a staff profile, product A with 5 in
  stock and product B with 5 in stock, a supplier owed nothing, a customer owing 2000.
\<close>

definition shop :: database where
  "shop =
     \<lparr>profiles = [''u-admin'' \<mapsto> Admin, ''u-staff'' \<mapsto> Staff],
      products = [''prod-a'' \<mapsto> 5, ''prod-b'' \<mapsto> 5],
      suppliers = [''sup-1'' \<mapsto> 0],
      customers = [''cus-1'' \<mapsto> 2000],
      purchase_orders = [],
      purchase_order_items = [],
      sales_orders = [],
      sales_order_items = []\<rparr>"

text \<open>The callers.\<close>

definition admin :: "uuid option" where
  "admin = Some ''u-admin''"

definition staff :: "uuid option" where
  "staff = Some ''u-staff''"

text \<open>
  A purchase from the supplier: ten of product A at 1000, one of product B at 20 and three
  more of product A at 900, with 5000 paid.
\<close>

definition purchase_form :: purchase_formData where
  "purchase_form = \<lparr>form_paid_amount = 5000, form_supplier_id = ''sup-1''\<rparr>"

definition purchase_lines :: "order_item list" where
  "purchase_lines =
     [\<lparr>product_id = ''prod-a'', quantity = 10, unit_price = 1000\<rparr>,
      \<lparr>product_id = ''prod-b'', quantity = 1, unit_price = 20\<rparr>,
      \<lparr>product_id = ''prod-a'', quantity = 3, unit_price = 900\<rparr>]"

text \<open>
  The product list as the sales page loaded it from this store, and a sale to the customer:
  two of product B at 500 with a discount of 100, of which 400 is paid. The walk-in sale
  is the same with no customer chosen.
\<close>

definition loaded_products :: "product list" where
  "loaded_products =
     [\<lparr>p_id = ''prod-a'', stock_quantity = 5\<rparr>, \<lparr>p_id = ''prod-b'', stock_quantity = 5\<rparr>]"

definition sale_form :: sales_formData where
  "sale_form = \<lparr>form_paid_amount = 400, form_customer_id = ''cus-1'', form_discount = 100\<rparr>"

definition walk_in_form :: sales_formData where
  "walk_in_form = \<lparr>form_paid_amount = 900, form_customer_id = [], form_discount = 100\<rparr>"

definition sale_lines :: "order_item list" where
  "sale_lines = [\<lparr>product_id = ''prod-b'', quantity = 2, unit_price = 500\<rparr>]"

section \<open>Frame and step lemmas\<close>

lemma foldl_line_total:
  "foldl (\<lambda>sum item. sum + quantity item * unit_price item) a xs
     = a + (\<Sum>item\<leftarrow>xs. quantity item * unit_price item)"
  by (induction xs arbitrary: a) simp_all

lemma profile_role_in_profiles:
  "profiles db' = profiles db \<Longrightarrow> profile_role_in db' caller rs = profile_role_in db caller rs"
  by (simp add: profile_role_in_def split: option.splits)

lemma rls_permits_profiles:
  "profiles db' = profiles db \<Longrightarrow> rls_permits db' caller t opn = rls_permits db caller t opn"
  using profile_role_in_profiles [of db' db caller]
  by (cases t; cases opn) simp_all

lemma update_stock_quantity_frame [simp]:
  "profiles (update_stock_quantity caller db p v) = profiles db"
  "suppliers (update_stock_quantity caller db p v) = suppliers db"
  "customers (update_stock_quantity caller db p v) = customers db"
  "purchase_orders (update_stock_quantity caller db p v) = purchase_orders db"
  "purchase_order_items (update_stock_quantity caller db p v) = purchase_order_items db"
  "sales_orders (update_stock_quantity caller db p v) = sales_orders db"
  "sales_order_items (update_stock_quantity caller db p v) = sales_order_items db"
  by (simp_all add: update_stock_quantity_def)

lemma purchases_adjust_stock_frame [simp]:
  "profiles (purchases_adjust_stock caller items db) = profiles db"
  "suppliers (purchases_adjust_stock caller items db) = suppliers db"
  "customers (purchases_adjust_stock caller items db) = customers db"
  "purchase_orders (purchases_adjust_stock caller items db) = purchase_orders db"
  "purchase_order_items (purchases_adjust_stock caller items db) = purchase_order_items db"
  "sales_orders (purchases_adjust_stock caller items db) = sales_orders db"
  "sales_order_items (purchases_adjust_stock caller items db) = sales_order_items db"
  by (induction items arbitrary: db; simp split: option.splits)+

lemma sales_adjust_stock_frame [simp]:
  "profiles (sales_adjust_stock caller items db) = profiles db"
  "suppliers (sales_adjust_stock caller items db) = suppliers db"
  "customers (sales_adjust_stock caller items db) = customers db"
  "purchase_orders (sales_adjust_stock caller items db) = purchase_orders db"
  "purchase_order_items (sales_adjust_stock caller items db) = purchase_order_items db"
  "sales_orders (sales_adjust_stock caller items db) = sales_orders db"
  "sales_order_items (sales_adjust_stock caller items db) = sales_order_items db"
  by (induction items arbitrary: db; simp split: option.splits)+

lemma ordered_Nil [simp]: "ordered p [] = 0"
  by (simp add: ordered_def)

lemma ordered_Cons [simp]:
  "ordered p (item # items)
     = (if product_id item = p then quantity item + ordered p items else ordered p items)"
  by (simp add: ordered_def)

lemma purchases_adjust_stock_products:
  assumes "rls_permits db caller Products SELECT" and "rls_permits db caller Products UPDATE"
  shows "products (purchases_adjust_stock caller items db) p
           = map_option (\<lambda>stock. stock + ordered p items) (products db p)"
  using assms
proof (induction items arbitrary: db)
  case Nil
  show ?case by (cases "products db p") simp_all
next
  case (Cons item items)
  let ?q = "product_id item"
  show ?case
  proof (cases "products db ?q")
    case None
    have step: "purchases_adjust_stock caller (item # items) db
                  = purchases_adjust_stock caller items db"
      using None by (simp add: select_stock_quantity_def)
    have "p = ?q \<Longrightarrow> products db p = None"
      using None by simp
    then show ?thesis
      unfolding step Cons.IH [OF Cons.prems]
      by (cases "products db p") auto
  next
    case (Some stock)
    let ?db1 = "update_stock_quantity caller db ?q (stock + quantity item)"
    have perm: "rls_permits ?db1 caller Products SELECT" "rls_permits ?db1 caller Products UPDATE"
      using Cons.prems
      by (simp_all only: rls_permits_profiles [OF update_stock_quantity_frame(1)])
    have step: "purchases_adjust_stock caller (item # items) db
                  = purchases_adjust_stock caller items ?db1"
      using Cons.prems Some by (simp add: select_stock_quantity_def)
    have prod1: "products ?db1 = (products db)(?q \<mapsto> stock + quantity item)"
      using Cons.prems Some by (simp add: update_stock_quantity_def)
    show ?thesis
    proof (cases "p = ?q")
      case True
      then show ?thesis
        unfolding step Cons.IH [OF perm] prod1 using Some by simp
    next
      case False
      then show ?thesis
        unfolding step Cons.IH [OF perm] prod1 by (cases "products db p") auto
    qed
  qed
qed


lemma sales_adjust_stock_products:
  assumes "rls_permits db caller Products SELECT" and "rls_permits db caller Products UPDATE"
  shows "products (sales_adjust_stock caller items db) p
           = map_option (\<lambda>stock. stock - ordered p items) (products db p)"
  using assms
proof (induction items arbitrary: db)
  case Nil
  show ?case by (cases "products db p") simp_all
next
  case (Cons item items)
  let ?q = "product_id item"
  show ?case
  proof (cases "products db ?q")
    case None
    have step: "sales_adjust_stock caller (item # items) db
                  = sales_adjust_stock caller items db"
      using None by (simp add: select_stock_quantity_def)
    have "p = ?q \<Longrightarrow> products db p = None"
      using None by simp
    then show ?thesis
      unfolding step Cons.IH [OF Cons.prems]
      by (cases "products db p") auto
  next
    case (Some stock)
    let ?db1 = "update_stock_quantity caller db ?q (stock - quantity item)"
    have perm: "rls_permits ?db1 caller Products SELECT" "rls_permits ?db1 caller Products UPDATE"
      using Cons.prems
      by (simp_all only: rls_permits_profiles [OF update_stock_quantity_frame(1)])
    have step: "sales_adjust_stock caller (item # items) db
                  = sales_adjust_stock caller items ?db1"
      using Cons.prems Some by (simp add: select_stock_quantity_def)
    have prod1: "products ?db1 = (products db)(?q \<mapsto> stock - quantity item)"
      using Cons.prems Some by (simp add: update_stock_quantity_def)
    show ?thesis
    proof (cases "p = ?q")
      case True
      then show ?thesis
        unfolding step Cons.IH [OF perm] prod1 using Some by simp
    next
      case False
      then show ?thesis
        unfolding step Cons.IH [OF perm] prod1 by (cases "products db p") auto
    qed
  qed
qed

lemma purchases_adjust_debt_frame [simp]:
  "profiles (purchases_adjust_debt caller fd t db) = profiles db"
  "products (purchases_adjust_debt caller fd t db) = products db"
  "customers (purchases_adjust_debt caller fd t db) = customers db"
  "purchase_orders (purchases_adjust_debt caller fd t db) = purchase_orders db"
  "purchase_order_items (purchases_adjust_debt caller fd t db) = purchase_order_items db"
  "sales_orders (purchases_adjust_debt caller fd t db) = sales_orders db"
  "sales_order_items (purchases_adjust_debt caller fd t db) = sales_order_items db"
  by (simp_all add: purchases_adjust_debt_def update_supplier_debt_def Let_def
      split: option.splits)

lemma sales_adjust_debt_frame [simp]:
  "profiles (sales_adjust_debt caller fd t db) = profiles db"
  "products (sales_adjust_debt caller fd t db) = products db"
  "suppliers (sales_adjust_debt caller fd t db) = suppliers db"
  "purchase_orders (sales_adjust_debt caller fd t db) = purchase_orders db"
  "purchase_order_items (sales_adjust_debt caller fd t db) = purchase_order_items db"
  "sales_orders (sales_adjust_debt caller fd t db) = sales_orders db"
  "sales_order_items (sales_adjust_debt caller fd t db) = sales_order_items db"
  by (simp_all add: sales_adjust_debt_def update_customer_debt_def Let_def
      split: option.splits)

lemma insert_purchase_order_Inr:
  assumes "insert_purchase_order caller db row = Inr db1"
  shows "rls_permits db caller Purchase_orders INSERT"
    and "order_number row \<notin> set (map order_number (purchase_orders db))"
    and "suppliers db (supplier_id row) \<noteq> None"
    and "db1 = db\<lparr>purchase_orders := purchase_orders db @ [row]\<rparr>"
  using assms by (simp_all add: insert_purchase_order_def split: if_splits)

lemma insert_sales_order_Inr:
  assumes "insert_sales_order caller db row = Inr db1"
  shows "rls_permits db caller Sales_orders INSERT"
    and "order_number row \<notin> set (map order_number (sales_orders db))"
    and "customer_id row = Some c \<Longrightarrow> customers db c \<noteq> None"
    and "db1 = db\<lparr>sales_orders := sales_orders db @ [row]\<rparr>"
  using assms by (auto simp: insert_sales_order_def split: if_splits)

lemma insert_purchase_order_items_Inr:
  assumes "insert_purchase_order_items caller db rows = Inr db1"
  shows "db1 = db\<lparr>purchase_order_items := purchase_order_items db @ rows\<rparr>"
  using assms by (simp_all add: insert_purchase_order_items_def split: if_splits)

lemma insert_sales_order_items_Inr:
  assumes "insert_sales_order_items caller db rows = Inr db1"
  shows "db1 = db\<lparr>sales_order_items := sales_order_items db @ rows\<rparr>"
  using assms by (simp_all add: insert_sales_order_items_def split: if_splits)

lemma purchases_Submitted:
  assumes "purchases_handleSubmit caller now new_id fd orderItems db = (Submitted, db')"
  obtains db1 db2 where
    "insert_purchase_order caller db (purchases_order_row now new_id fd orderItems) = Inr db1"
    "insert_purchase_order_items caller db1 (order_item_rows new_id orderItems) = Inr db2"
    "db' = purchases_adjust_debt caller fd (purchases_calculateTotal orderItems)
             (purchases_adjust_stock caller orderItems db2)"
  using assms
  by (auto simp: purchases_handleSubmit_def Let_def split: if_splits sum.splits)

lemma sales_Submitted:
  assumes "sales_handleSubmit caller now new_id loaded fd orderItems db = (Submitted, db')"
  obtains db1 db2 where
    "check_stock loaded orderItems = None"
    "insert_sales_order caller db (sales_order_row now new_id fd orderItems) = Inr db1"
    "insert_sales_order_items caller db1 (order_item_rows new_id orderItems) = Inr db2"
    "db' = sales_adjust_debt caller fd (sales_calculateTotal fd orderItems)
             (sales_adjust_stock caller orderItems db2)"
  using assms
  by (auto simp: sales_handleSubmit_def Let_def split: if_splits sum.splits option.splits)

lemma purchase_insert_permits:
  assumes "rls_permits db caller Purchase_orders INSERT"
  shows "rls_permits db caller t SELECT" and "rls_permits db caller t UPDATE"
  using assms by (cases t; simp)+

lemma calculateSubtotal_sum: "calculateSubtotal xs = (\<Sum>item\<leftarrow>xs. quantity item * unit_price item)"
  by (simp add: calculateSubtotal_def foldl_line_total)

lemma purchases_header_persisted:
  assumes "header_persisted (fst (purchases_handleSubmit caller now new_id fd orderItems db))"
  shows "purchase_orders (snd (purchases_handleSubmit caller now new_id fd orderItems db))
           = purchase_orders db @ [purchases_order_row now new_id fd orderItems]"
proof (cases "insert_purchase_order caller db (purchases_order_row now new_id fd orderItems)")
  case (Inl e)
  with assms show ?thesis
    by (simp add: purchases_handleSubmit_def split: if_splits)
next
  case (Inr db1)
  note db1 = insert_purchase_order_Inr(4) [OF Inr]
  show ?thesis
  proof (cases "insert_purchase_order_items caller db1 (order_item_rows new_id orderItems)")
    case (Inl e)
    with assms Inr db1 show ?thesis
      by (simp add: purchases_handleSubmit_def split: if_splits)
  next
    case (Inr db2)
    note db2 = insert_purchase_order_items_Inr [OF Inr]
    from assms \<open>insert_purchase_order _ _ _ = Inr db1\<close> Inr db1 db2 show ?thesis
      by (simp add: purchases_handleSubmit_def split: if_splits)
  qed
qed

lemma sales_header_persisted:
  assumes "header_persisted (fst (sales_handleSubmit caller now new_id loaded fd orderItems db))"
  shows "sales_orders (snd (sales_handleSubmit caller now new_id loaded fd orderItems db))
           = sales_orders db @ [sales_order_row now new_id fd orderItems]"
proof (cases "insert_sales_order caller db (sales_order_row now new_id fd orderItems)")
  case (Inl e)
  with assms show ?thesis
    by (simp add: sales_handleSubmit_def split: if_splits option.splits)
next
  case (Inr db1)
  note db1 = insert_sales_order_Inr(4) [OF Inr]
  show ?thesis
  proof (cases "insert_sales_order_items caller db1 (order_item_rows new_id orderItems)")
    case (Inl e)
    with assms Inr db1 show ?thesis
      by (simp add: sales_handleSubmit_def split: if_splits option.splits)
  next
    case (Inr db2)
    note db2 = insert_sales_order_items_Inr [OF Inr]
    from assms \<open>insert_sales_order _ _ _ = Inr db1\<close> Inr db1 db2 show ?thesis
      by (simp add: sales_handleSubmit_def split: if_splits option.splits)
  qed
qed

lemma profile_role_in_authenticated:
  "profile_role_in db caller rs \<Longrightarrow> authenticated caller"
  by (simp add: profile_role_in_def authenticated_def split: option.splits)

lemma admin_or_manager_permits:
  assumes "profile_role_in db caller [Admin, Manager]"
  shows "rls_permits db caller t SELECT" and "rls_permits db caller t UPDATE"
  using assms profile_role_in_authenticated [OF assms] by (cases t; simp)+

lemma purchase_debt_adjusted:
  assumes "purchases_handleSubmit caller now new_id fd orderItems db = (Submitted, db')"
    and "form_supplier_id fd \<noteq> []"
  shows "\<exists>debt. suppliers db (form_supplier_id fd) = Some debt
           \<and> suppliers db' (form_supplier_id fd)
               = Some (debt + (purchases_calculateTotal orderItems - form_paid_amount fd))"
proof -
  from assms(1) obtain db1 db2 where
    ins: "insert_purchase_order caller db (purchases_order_row now new_id fd orderItems) = Inr db1"
    and items: "insert_purchase_order_items caller db1 (order_item_rows new_id orderItems) = Inr db2"
    and db': "db' = purchases_adjust_debt caller fd (purchases_calculateTotal orderItems)
             (purchases_adjust_stock caller orderItems db2)"
    by (rule purchases_Submitted)
  let ?db3 = "purchases_adjust_stock caller orderItems db2"
  have db3: "profiles ?db3 = profiles db" "suppliers ?db3 = suppliers db"
    using insert_purchase_order_Inr(4) [OF ins] insert_purchase_order_items_Inr [OF items]
    by simp_all
  have perm: "rls_permits ?db3 caller Suppliers SELECT" "rls_permits ?db3 caller Suppliers UPDATE"
    using purchase_insert_permits [OF insert_purchase_order_Inr(1) [OF ins], of Suppliers]
    by (simp_all only: rls_permits_profiles [OF db3(1)])
  from insert_purchase_order_Inr(3) [OF ins]
  obtain debt where debt: "suppliers db (form_supplier_id fd) = Some debt"
    by (auto simp: purchases_order_row_def)
  have "suppliers db' (form_supplier_id fd)
          = Some (debt + (purchases_calculateTotal orderItems - form_paid_amount fd))"
    using assms(2) perm debt db3(2)
    by (simp add: db' purchases_adjust_debt_def select_supplier_debt_def
        update_supplier_debt_def Let_def)
  with debt show ?thesis by blast
qed

lemma sales_debt_adjusted_for_admin_or_manager:
  assumes "sales_handleSubmit caller now new_id loaded fd orderItems db = (Submitted, db')"
    and "profile_role_in db caller [Admin, Manager]"
    and "form_customer_id fd \<noteq> []"
  shows "\<exists>debt. customers db (form_customer_id fd) = Some debt
           \<and> customers db' (form_customer_id fd)
               = Some (debt + (sales_calculateTotal fd orderItems - form_paid_amount fd))"
proof -
  from assms(1) obtain db1 db2 where
    ins: "insert_sales_order caller db (sales_order_row now new_id fd orderItems) = Inr db1"
    and items: "insert_sales_order_items caller db1 (order_item_rows new_id orderItems) = Inr db2"
    and db': "db' = sales_adjust_debt caller fd (sales_calculateTotal fd orderItems)
             (sales_adjust_stock caller orderItems db2)"
    by (rule sales_Submitted)
  let ?db3 = "sales_adjust_stock caller orderItems db2"
  have db3: "profiles ?db3 = profiles db" "customers ?db3 = customers db"
    using insert_sales_order_Inr(4) [OF ins] insert_sales_order_items_Inr [OF items]
    by simp_all
  have perm: "rls_permits ?db3 caller Customers SELECT" "rls_permits ?db3 caller Customers UPDATE"
    using admin_or_manager_permits [OF assms(2), of Customers]
    by (simp_all only: rls_permits_profiles [OF db3(1)])
  have "customer_id (sales_order_row now new_id fd orderItems) = Some (form_customer_id fd)"
    using assms(3) by (simp add: sales_order_row_def)
  from insert_sales_order_Inr(3) [OF ins this]
  obtain debt where debt: "customers db (form_customer_id fd) = Some debt"
    by auto
  have "customers db' (form_customer_id fd)
          = Some (debt + (sales_calculateTotal fd orderItems - form_paid_amount fd))"
    using assms(3) perm debt db3(2)
    by (simp add: db' sales_adjust_debt_def select_customer_debt_def
        update_customer_debt_def Let_def)
  with debt show ?thesis by blast
qed

lemma update_stock_quantity_denied:
  "\<not> rls_permits db caller Products UPDATE \<Longrightarrow> update_stock_quantity caller db p v = db"
  by (auto simp: update_stock_quantity_def)

lemma sales_adjust_stock_denied:
  "\<not> rls_permits db caller Products UPDATE \<Longrightarrow> sales_adjust_stock caller items db = db"
  by (induction items) (simp_all add: update_stock_quantity_denied split: option.splits)

lemma sales_adjust_debt_denied:
  "\<not> rls_permits db caller Customers UPDATE \<Longrightarrow> sales_adjust_debt caller fd t db = db"
  by (auto simp: sales_adjust_debt_def update_customer_debt_def Let_def split: option.splits)

lemma sales_writes_denied:
  assumes "\<not> profile_role_in db caller [Admin, Manager]"
  shows "products (snd (sales_handleSubmit caller now new_id loaded fd orderItems db))
           = products db"
    and "customers (snd (sales_handleSubmit caller now new_id loaded fd orderItems db))
           = customers db"
proof -
  have deny: "\<not> rls_permits db2 caller Products UPDATE" "\<not> rls_permits db2 caller Customers UPDATE"
    if "profiles db2 = profiles db" for db2
    using assms profile_role_in_profiles [OF that, of caller "[Admin, Manager]"] by simp_all
  have "products (snd (sales_handleSubmit caller now new_id loaded fd orderItems db))
           = products db
      \<and> customers (snd (sales_handleSubmit caller now new_id loaded fd orderItems db))
           = customers db"
  proof (cases "insert_sales_order caller db (sales_order_row now new_id fd orderItems)")
    case (Inl e)
    then show ?thesis
      by (simp add: sales_handleSubmit_def split: option.splits)
  next
    case (Inr db1)
    note db1 = insert_sales_order_Inr(4) [OF Inr]
    show ?thesis
    proof (cases "insert_sales_order_items caller db1 (order_item_rows new_id orderItems)")
      case (Inl e)
      with Inr db1 show ?thesis
        by (simp add: sales_handleSubmit_def split: option.splits)
    next
      case (Inr db2)
      note db2 = insert_sales_order_items_Inr [OF Inr]
      have p2: "profiles db2 = profiles db"
        using db1 db2 by simp
      have "sales_adjust_debt caller fd (sales_calculateTotal fd orderItems)
              (sales_adjust_stock caller orderItems db2) = db2"
        using deny [OF p2] by (simp add: sales_adjust_stock_denied sales_adjust_debt_denied)
      with \<open>insert_sales_order _ _ _ = Inr db1\<close> Inr db1 db2 show ?thesis
        by (simp add: sales_handleSubmit_def split: option.splits)
    qed
  qed
  then show "products (snd (sales_handleSubmit caller now new_id loaded fd orderItems db))
           = products db"
    and "customers (snd (sales_handleSubmit caller now new_id loaded fd orderItems db))
           = customers db"
    by simp_all
qed

lemma walk_in_customers_untouched:
  assumes "form_customer_id fd = []"
  shows "customers (snd (sales_handleSubmit caller now new_id loaded fd orderItems db))
           = customers db"
proof (cases "insert_sales_order caller db (sales_order_row now new_id fd orderItems)")
  case (Inl e)
  then show ?thesis
    by (simp add: sales_handleSubmit_def split: option.splits)
next
  case (Inr db1)
  note db1 = insert_sales_order_Inr(4) [OF Inr]
  show ?thesis
  proof (cases "insert_sales_order_items caller db1 (order_item_rows new_id orderItems)")
    case (Inl e)
    with Inr db1 show ?thesis
      by (simp add: sales_handleSubmit_def split: option.splits)
  next
    case (Inr db2)
    note db2 = insert_sales_order_items_Inr [OF Inr]
    from assms \<open>insert_sales_order _ _ _ = Inr db1\<close> Inr db1 db2 show ?thesis
      by (simp add: sales_handleSubmit_def sales_adjust_debt_def split: option.splits)
  qed
qed

lemma check_stock_finds:
  assumes "item \<in> set orderItems"
    and "find (\<lambda>q. p_id q = product_id item) loaded = Some q"
    and "stock_quantity q < quantity item"
  shows "check_stock loaded orderItems \<noteq> None"
  using assms(1)
proof (induction orderItems)
  case Nil
  then show ?case by simp
next
  case (Cons a orderItems)
  show ?case
  proof (cases "a = item")
    case True
    with assms(2,3) show ?thesis by simp
  next
    case False
    with Cons show ?thesis by (simp split: option.splits)
  qed
qed

lemma list_ex_order_item_rows:
  "list_ex (\<lambda>r. products db (product_id r) = None) (order_item_rows new_id orderItems)
     = (\<exists>item\<in>set orderItems. products db (product_id item) = None)"
  by (simp add: order_item_rows_def list_ex_iff)

lemma purchase_items_unknown_product:
  assumes "rls_permits db1 caller Purchase_order_items INSERT"
    and "item \<in> set orderItems" and "products db1 (product_id item) = None"
  shows "insert_purchase_order_items caller db1 (order_item_rows new_id orderItems)
           = Inl Foreign_key_violation"
  using assms
  by (auto simp: insert_purchase_order_items_def list_ex_order_item_rows)

lemma sales_items_unknown_product:
  assumes "rls_permits db1 caller Sales_order_items INSERT"
    and "item \<in> set orderItems" and "products db1 (product_id item) = None"
  shows "insert_sales_order_items caller db1 (order_item_rows new_id orderItems)
           = Inl Foreign_key_violation"
  using assms
  by (auto simp: insert_sales_order_items_def list_ex_order_item_rows)

lemma sales_outcome:
  "fst (sales_handleSubmit caller now new_id loaded fd orderItems db) =
     (if orderItems = [] then No_items
      else case check_stock loaded orderItems of
        Some p \<Rightarrow> Insufficient_stock p
      | None \<Rightarrow>
          (case insert_sales_order caller db (sales_order_row now new_id fd orderItems) of
             Inl e \<Rightarrow> Order_error e
           | Inr db1 \<Rightarrow>
               (case insert_sales_order_items caller db1 (order_item_rows new_id orderItems) of
                  Inl e \<Rightarrow> Items_error e
                | Inr db2 \<Rightarrow> Submitted)))"
  by (simp add: sales_handleSubmit_def split: option.splits sum.splits)

lemma insert_sales_order_items_same:
  assumes "profiles dba = profiles dbb" and "products dba = products dbb"
    and "map order_id (sales_orders dba) = map order_id (sales_orders dbb)"
  shows "(case insert_sales_order_items caller dba rows of Inl e \<Rightarrow> Some e | Inr d \<Rightarrow> None)
       = (case insert_sales_order_items caller dbb rows of Inl e \<Rightarrow> Some e | Inr d \<Rightarrow> None)"
  using assms rls_permits_profiles [OF assms(1), of caller Sales_order_items INSERT]
  by (simp add: insert_sales_order_items_def)

lemma sales_outcome_discount:
  "fst (sales_handleSubmit caller now new_id loaded (fd\<lparr>form_discount := d\<rparr>) orderItems db)
     = fst (sales_handleSubmit caller now new_id loaded fd orderItems db)"
proof (cases "insert_sales_order caller db (sales_order_row now new_id fd orderItems)")
  case (Inl e)
  then have "insert_sales_order caller db
               (sales_order_row now new_id (fd\<lparr>form_discount := d\<rparr>) orderItems) = Inl e"
    by (simp add: insert_sales_order_def sales_order_row_def split: if_splits)
  with Inl show ?thesis
    by (simp add: sales_outcome split: option.splits)
next
  case (Inr db1)
  let ?db1' = "db\<lparr>sales_orders := sales_orders db
                 @ [sales_order_row now new_id (fd\<lparr>form_discount := d\<rparr>) orderItems]\<rparr>"
  have ins': "insert_sales_order caller db
               (sales_order_row now new_id (fd\<lparr>form_discount := d\<rparr>) orderItems) = Inr ?db1'"
    using Inr by (simp add: insert_sales_order_def sales_order_row_def split: if_splits)
  have db1: "db1 = db\<lparr>sales_orders := sales_orders db @ [sales_order_row now new_id fd orderItems]\<rparr>"
    by (rule insert_sales_order_Inr(4) [OF Inr])
  have same: "(case insert_sales_order_items caller ?db1' (order_item_rows new_id orderItems)
                 of Inl e \<Rightarrow> Some e | Inr d \<Rightarrow> None)
            = (case insert_sales_order_items caller db1 (order_item_rows new_id orderItems)
                 of Inl e \<Rightarrow> Some e | Inr d \<Rightarrow> None)"
    by (rule insert_sales_order_items_same) (simp_all add: db1 sales_order_row_def)
  show ?thesis
    using same by (simp add: sales_outcome Inr ins' split: sum.splits option.splits)
qed

lemma digit_char_inj:
  assumes "a < 10" and "b < 10" and "digit_char a = digit_char b"
  shows "a = b"
proof -
  have "distinct ''0123456789''" by simp
  moreover have "length ''0123456789'' = 10" by simp
  ultimately show ?thesis
    using assms unfolding digit_char_def
    by (metis nth_eq_iff_index_eq)
qed

lemma string_of_nat_nonempty: "string_of_nat n \<noteq> []"
  by (subst string_of_nat.simps) simp

lemma string_of_nat_inj:
  "string_of_nat n = string_of_nat m \<Longrightarrow> n = m"
proof (induction n arbitrary: m rule: string_of_nat.induct)
  case (1 n)
  show ?case
  proof (cases "n < 10")
    case n: True
    show ?thesis
    proof (cases "m < 10")
      case True
      with n "1.prems" have "digit_char n = digit_char m"
        by (simp add: string_of_nat.simps [of n] string_of_nat.simps [of m])
      with n True show ?thesis
        by (rule digit_char_inj)
    next
      case False
      with n "1.prems" have "string_of_nat (m div 10) = []"
        by (simp add: string_of_nat.simps [of n] string_of_nat.simps [of m])
      then show ?thesis
        by (simp add: string_of_nat_nonempty)
    qed
  next
    case n: False
    show ?thesis
    proof (cases "m < 10")
      case True
      with n "1.prems" have "string_of_nat (n div 10) = []"
        by (simp add: string_of_nat.simps [of n] string_of_nat.simps [of m])
      then show ?thesis
        by (simp add: string_of_nat_nonempty)
    next
      case False
      with n "1.prems" have eq: "string_of_nat (n div 10) = string_of_nat (m div 10)"
        and d: "digit_char (n mod 10) = digit_char (m mod 10)"
        by (simp_all add: string_of_nat.simps [of n] string_of_nat.simps [of m])
      from "1.IH" [OF n eq] have "n div 10 = m div 10" .
      moreover have "n mod 10 = m mod 10"
        by (rule digit_char_inj [OF _ _ d]) simp_all
      ultimately show ?thesis
        by (metis div_mult_mod_eq)
    qed
  qed
qed

lemma purchases_orders_after:
  "purchase_orders (snd (purchases_handleSubmit caller now new_id fd orderItems db))
     = (if header_persisted (fst (purchases_handleSubmit caller now new_id fd orderItems db))
        then purchase_orders db @ [purchases_order_row now new_id fd orderItems]
        else purchase_orders db)"
proof (cases "header_persisted (fst (purchases_handleSubmit caller now new_id fd orderItems db))")
  case True
  then show ?thesis by (simp add: purchases_header_persisted)
next
  case False
  then show ?thesis
    by (auto simp: purchases_handleSubmit_def split: if_splits sum.splits)
qed

lemma sales_orders_after:
  "sales_orders (snd (sales_handleSubmit caller now new_id loaded fd orderItems db))
     = (if header_persisted (fst (sales_handleSubmit caller now new_id loaded fd orderItems db))
        then sales_orders db @ [sales_order_row now new_id fd orderItems]
        else sales_orders db)"
proof (cases "header_persisted (fst (sales_handleSubmit caller now new_id loaded fd orderItems db))")
  case True
  then show ?thesis by (simp add: sales_header_persisted)
next
  case False
  then show ?thesis
    by (auto simp: sales_handleSubmit_def split: if_splits sum.splits option.splits)
qed

lemma purchases_number_fresh:
  assumes "header_persisted (fst (purchases_handleSubmit caller now new_id fd orderItems db))"
  shows "purchases_orderNumber now \<notin> set (map order_number (purchase_orders db))"
proof (cases "insert_purchase_order caller db (purchases_order_row now new_id fd orderItems)")
  case (Inl e)
  with assms show ?thesis
    by (simp add: purchases_handleSubmit_def split: if_splits)
next
  case (Inr db1)
  from insert_purchase_order_Inr(2) [OF Inr] show ?thesis
    by (simp add: purchases_order_row_def)
qed

lemma sales_number_fresh:
  assumes "header_persisted (fst (sales_handleSubmit caller now new_id loaded fd orderItems db))"
  shows "sales_orderNumber now \<notin> set (map order_number (sales_orders db))"
proof (cases "insert_sales_order caller db (sales_order_row now new_id fd orderItems)")
  case (Inl e)
  with assms show ?thesis
    by (simp add: sales_handleSubmit_def split: if_splits option.splits)
next
  case (Inr db1)
  from insert_sales_order_Inr(2) [OF Inr] show ?thesis
    by (simp add: sales_order_row_def)
qed

section \<open>The policy matrix for inserts\<close>

lemma profile_role_in_admin_manager:
  "profile_role_in db caller [Admin, Manager] =
     (\<exists>u r. caller = Some u \<and> profiles db u = Some r \<and> (r = Admin \<or> r = Manager))"
  by (auto simp: profile_role_in_def split: option.splits)

text \<open>
  C7. Inserting into suppliers or purchase orders is permitted exactly when the caller's
  profile has the role admin or manager; inserting into customers or sales orders is
  permitted exactly when the caller is authenticated, whatever the role. A caller whose
  role is staff gets the policy violation from a supplier insert and the handler returns
  with the store as it was: no row is created.
\<close>

theorem insert_policy_matrix:
  "rls_permits db caller Suppliers INSERT =
     (\<exists>u r. caller = Some u \<and> profiles db u = Some r \<and> (r = Admin \<or> r = Manager))
   \<and> rls_permits db caller Purchase_orders INSERT =
     (\<exists>u r. caller = Some u \<and> profiles db u = Some r \<and> (r = Admin \<or> r = Manager))
   \<and> rls_permits db caller Customers INSERT = (\<exists>u. caller = Some u)
   \<and> rls_permits db caller Sales_orders INSERT = (\<exists>u. caller = Some u)
   \<and> (profiles db u = Some Staff \<longrightarrow>
        insert_supplier (Some u) db new_id = Inl Rls_violation
        \<and> suppliers_handleSubmit (Some u) new_id None db = (Supplier_error Rls_violation, db))"
  by (auto simp: profile_role_in_admin_manager authenticated_def insert_supplier_def
      suppliers_handleSubmit_def)

theorem insert_policy_matrix_witness:
  "profiles shop ''u-staff'' = Some Staff
   \<and> insert_supplier (Some ''u-staff'') shop ''sup-2'' = Inl Rls_violation
   \<and> suppliers_handleSubmit (Some ''u-staff'') ''sup-2'' None shop
       = (Supplier_error Rls_violation, shop)"
  using insert_policy_matrix [of shop "Some ''u-staff''" "''u-staff''" "''sup-2''"]
  by (simp add: shop_def)

section \<open>Stock after a purchase\<close>

text \<open>
  C2. When the purchase handler runs to its end, every product row has its stock increased
  by the quantities of all the lines of the order that name it, lines of the same product
  added up (a product no line names keeps its stock).
\<close>

theorem purchase_stock_increase:
  assumes "purchases_handleSubmit caller now new_id fd orderItems db = (Submitted, db')"
    and "products db p = Some stock"
  shows "products db' p
    = Some (stock + (\<Sum>item\<leftarrow>filter (\<lambda>item. product_id item = p) orderItems. quantity item))"
proof -
  from assms(1) obtain db1 db2 where
    ins: "insert_purchase_order caller db (purchases_order_row now new_id fd orderItems) = Inr db1"
    and items: "insert_purchase_order_items caller db1 (order_item_rows new_id orderItems) = Inr db2"
    and db': "db' = purchases_adjust_debt caller fd (purchases_calculateTotal orderItems)
             (purchases_adjust_stock caller orderItems db2)"
    by (rule purchases_Submitted)
  have db2: "profiles db2 = profiles db" "products db2 = products db"
    using insert_purchase_order_Inr(4) [OF ins] insert_purchase_order_items_Inr [OF items]
    by simp_all
  have perm: "rls_permits db2 caller Products SELECT" "rls_permits db2 caller Products UPDATE"
    using purchase_insert_permits [OF insert_purchase_order_Inr(1) [OF ins], of Products]
    by (simp_all only: rls_permits_profiles [OF db2(1)])
  show ?thesis
    unfolding db' purchases_adjust_debt_frame purchases_adjust_stock_products [OF perm] db2
    using assms(2) by (simp add: ordered_def)
qed

theorem purchase_stock_increase_witness:
  "fst (purchases_handleSubmit admin 1700000000000 ''po-1'' purchase_form purchase_lines shop)
     = Submitted
   \<and> products shop ''prod-a'' = Some 5
   \<and> products
        (snd (purchases_handleSubmit admin 1700000000000 ''po-1'' purchase_form purchase_lines
           shop)) ''prod-a''
     = Some 18"
proof -
  let ?r = "purchases_handleSubmit admin 1700000000000 ''po-1'' purchase_form purchase_lines shop"
  have "fst ?r = Submitted"
    by (simp add: purchases_handleSubmit_def insert_purchase_order_def
        insert_purchase_order_items_def purchases_order_row_def order_item_rows_def
        authenticated_def profile_role_in_def shop_def admin_def purchase_form_def
        purchase_lines_def)
  then have run: "?r = (Submitted, snd ?r)"
    by (simp add: prod_eq_iff)
  have stock: "products shop ''prod-a'' = Some 5"
    by (simp add: shop_def)
  have asked:
    "(\<Sum>item\<leftarrow>filter (\<lambda>item. product_id item = ''prod-a'') purchase_lines. quantity item) = 13"
    by (simp add: purchase_lines_def)
  have "products (snd ?r) ''prod-a'' = Some (5 + 13)"
    using purchase_stock_increase [OF run stock] unfolding asked .
  then have "products (snd ?r) ''prod-a'' = Some 18"
    by simp
  with \<open>fst ?r = Submitted\<close> stock show ?thesis
    by blast
qed

section \<open>A header that cannot be written\<close>

text \<open>
  C5. When the store refuses the header insert, the handler ends with that error and the
  store is the store from before: no line is inserted, no stock and no debt balance is
  written.
\<close>

theorem header_failure_stops:
  "(orderItems \<noteq> []
      \<and> insert_purchase_order caller db (purchases_order_row now new_id pfd orderItems) = Inl e
     \<longrightarrow> purchases_handleSubmit caller now new_id pfd orderItems db = (Order_error e, db))
   \<and> (orderItems \<noteq> [] \<and> check_stock loaded orderItems = None
      \<and> insert_sales_order caller db (sales_order_row now new_id sfd orderItems) = Inl e'
     \<longrightarrow> sales_handleSubmit caller now new_id loaded sfd orderItems db = (Order_error e', db))"
  by (simp add: purchases_handleSubmit_def sales_handleSubmit_def)

theorem header_failure_stops_witness:
  "purchase_lines \<noteq> []
   \<and> insert_purchase_order staff shop
        (purchases_order_row 1700000000000 ''po-1'' purchase_form purchase_lines)
       = Inl Rls_violation
   \<and> purchases_handleSubmit staff 1700000000000 ''po-1'' purchase_form purchase_lines shop
       = (Order_error Rls_violation, shop)
   \<and> sale_lines \<noteq> []
   \<and> check_stock loaded_products sale_lines = None
   \<and> insert_sales_order admin shop
        (sales_order_row 1700000000000 ''so-1'' (sale_form\<lparr>form_customer_id := ''cus-9''\<rparr>)
           sale_lines)
       = Inl Foreign_key_violation
   \<and> sales_handleSubmit admin 1700000000000 ''so-1'' loaded_products
        (sale_form\<lparr>form_customer_id := ''cus-9''\<rparr>) sale_lines shop
       = (Order_error Foreign_key_violation, shop)"
proof -
  have a: "purchase_lines \<noteq> []"
    by (simp add: purchase_lines_def)
  have b: "insert_purchase_order staff shop
        (purchases_order_row 1700000000000 ''po-1'' purchase_form purchase_lines)
       = Inl Rls_violation"
    by (simp add: insert_purchase_order_def authenticated_def profile_role_in_def shop_def
        staff_def)
  have c: "sale_lines \<noteq> []"
    by (simp add: sale_lines_def)
  have d: "check_stock loaded_products sale_lines = None"
    by (simp add: sale_lines_def loaded_products_def)
  have e: "insert_sales_order admin shop
        (sales_order_row 1700000000000 ''so-1'' (sale_form\<lparr>form_customer_id := ''cus-9''\<rparr>)
           sale_lines)
       = Inl Foreign_key_violation"
    by (simp add: insert_sales_order_def authenticated_def shop_def admin_def
        sales_order_row_def sale_form_def)
  from header_failure_stops
    [where caller = staff and now = 1700000000000 and new_id = "''po-1''"
       and pfd = purchase_form and orderItems = purchase_lines and db = shop
       and e = Rls_violation]
  have "purchases_handleSubmit staff 1700000000000 ''po-1'' purchase_form purchase_lines shop
       = (Order_error Rls_violation, shop)"
    using a b by blast
  moreover
  from header_failure_stops
    [where caller = admin and now = 1700000000000 and new_id = "''so-1''"
       and loaded = loaded_products and sfd = "sale_form\<lparr>form_customer_id := ''cus-9''\<rparr>"
       and orderItems = sale_lines and db = shop and e' = Foreign_key_violation]
  have "sales_handleSubmit admin 1700000000000 ''so-1'' loaded_products
        (sale_form\<lparr>form_customer_id := ''cus-9''\<rparr>) sale_lines shop
       = (Order_error Foreign_key_violation, shop)"
    using c d e by blast
  ultimately show ?thesis
    using a b c d e by blast
qed

section \<open>Debt after settlement\<close>

text \<open>
  What holds of the debt step is \<open>purchase_debt_adjusted\<close> (a purchase that runs to its end
  was made by an admin or manager, and the supplier's balance grows by total minus paid),
  \<open>sales_debt_adjusted_for_admin_or_manager\<close> (the same for the customer of a sale made
  by an admin or manager) and \<open>sales_writes_denied\<close> (for any other caller the sale leaves
  every stock and every balance as it was).

  C1. The sales page offers the order form to every role and the policies let every
  authenticated caller insert the header and the lines, but only admins and managers
  update \<^verbatim>\<open>customers\<close>. A staff member sells two of product B at 500 with discount 100 to
  the customer owing 2000, who pays 400: the handler runs to its end, the header says total
  900 and paid 400, and the customer's balance is still 2000, not 2500.
\<close>

theorem staff_sale_debt_not_adjusted:
  "fst (sales_handleSubmit staff 1700000000000 ''so-1'' loaded_products sale_form sale_lines shop)
     = Submitted
   \<and> map customer_id
        (sales_orders (snd (sales_handleSubmit staff 1700000000000 ''so-1'' loaded_products
           sale_form sale_lines shop))) = [Some ''cus-1'']
   \<and> map total_amount
        (sales_orders (snd (sales_handleSubmit staff 1700000000000 ''so-1'' loaded_products
           sale_form sale_lines shop))) = [900]
   \<and> map paid_amount
        (sales_orders (snd (sales_handleSubmit staff 1700000000000 ''so-1'' loaded_products
           sale_form sale_lines shop))) = [400]
   \<and> customers shop ''cus-1'' = Some 2000
   \<and> customers (snd (sales_handleSubmit staff 1700000000000 ''so-1'' loaded_products
           sale_form sale_lines shop)) ''cus-1'' = Some 2000"
  by (simp add: sales_handleSubmit_def insert_sales_order_def insert_sales_order_items_def
      sales_order_row_def order_item_rows_def authenticated_def profile_role_in_def
      sales_adjust_debt_def select_customer_debt_def update_customer_debt_def
      select_stock_quantity_def update_stock_quantity_def
      sales_calculateTotal_def calculateSubtotal_def
      shop_def staff_def sale_form_def sale_lines_def loaded_products_def)

section \<open>Walk-in sales\<close>

text \<open>
  That a sale with no customer chosen writes no balance is \<open>walk_in_customers_untouched\<close>.

  C10. The same sale made by a staff member with no customer chosen: the header (with no
  customer) and the line are in the store and no balance changed, but product B still has
  5 in stock, not 3. The update of \<^verbatim>\<open>products\<close> is denied to staff as the update of
  \<^verbatim>\<open>customers\<close> is, and the handler does not look at the result.
\<close>

theorem staff_walk_in_sale_stock_not_decremented:
  "fst (sales_handleSubmit staff 1700000000000 ''so-1'' loaded_products walk_in_form sale_lines
          shop) = Submitted
   \<and> map customer_id
        (sales_orders (snd (sales_handleSubmit staff 1700000000000 ''so-1'' loaded_products
           walk_in_form sale_lines shop))) = [None]
   \<and> map quantity
        (sales_order_items (snd (sales_handleSubmit staff 1700000000000 ''so-1''
           loaded_products walk_in_form sale_lines shop))) = [2]
   \<and> customers (snd (sales_handleSubmit staff 1700000000000 ''so-1'' loaded_products
           walk_in_form sale_lines shop)) ''cus-1'' = Some 2000
   \<and> products shop ''prod-b'' = Some 5
   \<and> products (snd (sales_handleSubmit staff 1700000000000 ''so-1'' loaded_products
           walk_in_form sale_lines shop)) ''prod-b'' = Some 5"
  by (simp add: sales_handleSubmit_def insert_sales_order_def insert_sales_order_items_def
      sales_order_row_def order_item_rows_def authenticated_def profile_role_in_def
      sales_adjust_debt_def select_customer_debt_def update_customer_debt_def
      select_stock_quantity_def update_stock_quantity_def
      sales_calculateTotal_def calculateSubtotal_def
      shop_def staff_def walk_in_form_def sale_lines_def loaded_products_def)

section \<open>Stock after a sale, and the stock check\<close>

text \<open>
  C3, as the handler has it. The stock check reads the product list the page loaded when it
  opened, not the store: a draft with a line asking for more than the listed stock of its
  product is refused before any write, whatever the store holds. When a sale made by an
  admin or manager runs to its end, every product row has its stock decreased by the
  quantities of all the lines that name it.
\<close>

theorem sales_stock_decrease_and_check:
  "(sales_handleSubmit caller now new_id loaded fd orderItems db = (Submitted, db')
      \<and> profile_role_in db caller [Admin, Manager] \<and> products db p = Some stock
     \<longrightarrow> products db' p
          = Some (stock
              - (\<Sum>item\<leftarrow>filter (\<lambda>item. product_id item = p) orderItems. quantity item)))
   \<and> (item \<in> set orderItems \<and> find (\<lambda>q. p_id q = product_id item) loaded = Some q
      \<and> stock_quantity q < quantity item
     \<longrightarrow> (\<exists>p'. sales_handleSubmit caller now new_id loaded fd orderItems db
                 = (Insufficient_stock p', db)))"
proof (intro conjI impI)
  assume a: "sales_handleSubmit caller now new_id loaded fd orderItems db = (Submitted, db')
      \<and> profile_role_in db caller [Admin, Manager] \<and> products db p = Some stock"
  then obtain db1 db2 where
    ins: "insert_sales_order caller db (sales_order_row now new_id fd orderItems) = Inr db1"
    and items: "insert_sales_order_items caller db1 (order_item_rows new_id orderItems) = Inr db2"
    and db': "db' = sales_adjust_debt caller fd (sales_calculateTotal fd orderItems)
             (sales_adjust_stock caller orderItems db2)"
    by (blast elim: sales_Submitted)
  have db2: "profiles db2 = profiles db" "products db2 = products db"
    using insert_sales_order_Inr(4) [OF ins] insert_sales_order_items_Inr [OF items]
    by simp_all
  from a have role: "profile_role_in db caller [Admin, Manager]" by blast
  have perm: "rls_permits db2 caller Products SELECT" "rls_permits db2 caller Products UPDATE"
    using admin_or_manager_permits [OF role, of Products]
    by (simp_all only: rls_permits_profiles [OF db2(1)])
  from a have "products db p = Some stock" by blast
  then show "products db' p
          = Some (stock
              - (\<Sum>item\<leftarrow>filter (\<lambda>item. product_id item = p) orderItems. quantity item))"
    unfolding db' sales_adjust_debt_frame sales_adjust_stock_products [OF perm] db2
    by (simp add: ordered_def)
next
  assume b: "item \<in> set orderItems \<and> find (\<lambda>q. p_id q = product_id item) loaded = Some q
      \<and> stock_quantity q < quantity item"
  then have "check_stock loaded orderItems \<noteq> None"
    using check_stock_finds [of item orderItems loaded q] by blast
  moreover from b have "orderItems \<noteq> []" by auto
  ultimately show "\<exists>p'. sales_handleSubmit caller now new_id loaded fd orderItems db
                 = (Insufficient_stock p', db)"
    by (auto simp: sales_handleSubmit_def)
qed

theorem sales_stock_decrease_and_check_witness:
  "sales_handleSubmit admin 1700000000000 ''so-1'' loaded_products sale_form sale_lines shop
     = (Submitted,
        snd (sales_handleSubmit admin 1700000000000 ''so-1'' loaded_products sale_form sale_lines
          shop))
   \<and> profile_role_in shop admin [Admin, Manager]
   \<and> products shop ''prod-b'' = Some 5
   \<and> products
        (snd (sales_handleSubmit admin 1700000000000 ''so-1'' loaded_products sale_form sale_lines
          shop)) ''prod-b'' = Some 3
   \<and> find (\<lambda>q. p_id q = ''prod-b'') loaded_products = Some \<lparr>p_id = ''prod-b'', stock_quantity = 5\<rparr>
   \<and> (\<exists>p'. sales_handleSubmit admin 1700000000000 ''so-2'' loaded_products sale_form
               [\<lparr>product_id = ''prod-b'', quantity = 6, unit_price = 500\<rparr>] shop
            = (Insufficient_stock p', shop))"
proof -
  let ?r = "sales_handleSubmit admin 1700000000000 ''so-1'' loaded_products sale_form sale_lines
              shop"
  let ?six = "\<lparr>product_id = ''prod-b'', quantity = 6, unit_price = 500\<rparr>"
  let ?b = "\<lparr>p_id = ''prod-b'', stock_quantity = 5\<rparr>"
  have "fst ?r = Submitted"
    by (simp add: sales_handleSubmit_def insert_sales_order_def
        insert_sales_order_items_def sales_order_row_def order_item_rows_def
        authenticated_def shop_def admin_def sale_form_def sale_lines_def loaded_products_def)
  then have run: "?r = (Submitted, snd ?r)"
    by (simp add: prod_eq_iff)
  have role: "profile_role_in shop admin [Admin, Manager]"
    by (simp add: profile_role_in_def shop_def admin_def)
  have stock: "products shop ''prod-b'' = Some 5"
    by (simp add: shop_def)
  have asked:
    "(\<Sum>item\<leftarrow>filter (\<lambda>item. product_id item = ''prod-b'') sale_lines. quantity item) = 2"
    by (simp add: sale_lines_def)
  have "products (snd ?r) ''prod-b'' = Some (5 - 2)"
    using sales_stock_decrease_and_check
      [where caller = admin and now = 1700000000000 and new_id = "''so-1''"
         and loaded = loaded_products and fd = sale_form and orderItems = sale_lines
         and db = shop and db' = "snd ?r" and p = "''prod-b''" and stock = 5]
      run role stock
    unfolding asked by blast
  then have after: "products (snd ?r) ''prod-b'' = Some 3"
    by simp
  have found: "find (\<lambda>q. p_id q = product_id ?six) loaded_products = Some ?b"
    by (simp add: loaded_products_def)
  have less: "stock_quantity ?b < quantity ?six"
    by simp
  have "\<exists>p'. sales_handleSubmit admin 1700000000000 ''so-2'' loaded_products sale_form [?six] shop
            = (Insufficient_stock p', shop)"
    using sales_stock_decrease_and_check
      [where caller = admin and now = 1700000000000 and new_id = "''so-2''"
         and loaded = loaded_products and fd = sale_form and orderItems = "[?six]"
         and db = shop and item = ?six and q = ?b]
      found less
    by simp
  with run role stock after found show ?thesis
    by simp
qed

text \<open>
  The check against the store's current stock fails: the page lists 10 of product B, the
  store holds 5, a line asks for 6. The sale goes through and the stock is \<open>-1\<close>.
\<close>

theorem stale_product_list_counterexample:
  "products shop ''prod-b'' = Some 5
   \<and> fst (sales_handleSubmit admin 1700000000000 ''so-1''
            [\<lparr>p_id = ''prod-b'', stock_quantity = 10\<rparr>] sale_form
            [\<lparr>product_id = ''prod-b'', quantity = 6, unit_price = 500\<rparr>] shop) = Submitted
   \<and> products (snd (sales_handleSubmit admin 1700000000000 ''so-1''
            [\<lparr>p_id = ''prod-b'', stock_quantity = 10\<rparr>] sale_form
            [\<lparr>product_id = ''prod-b'', quantity = 6, unit_price = 500\<rparr>] shop)) ''prod-b''
       = Some (- 1)"
  by (simp add: sales_handleSubmit_def insert_sales_order_def insert_sales_order_items_def
      sales_order_row_def order_item_rows_def authenticated_def profile_role_in_def
      select_stock_quantity_def update_stock_quantity_def
      shop_def admin_def sale_form_def)

section \<open>What composition checks\<close>

text \<open>
  C6, as the handlers have it. An empty line list ends either handler before any write. A
  line whose product is not in the store is not noticed by the handler: when the header
  insert succeeds the header is written, the store then refuses the lines for the missing
  product, and the handler ends with that error, the header staying in the store without
  lines.
\<close>

theorem composition_checks:
  "purchases_handleSubmit caller now new_id pfd [] db = (No_items, db)
   \<and> sales_handleSubmit caller now new_id loaded sfd [] db = (No_items, db)
   \<and> (item \<in> set orderItems \<and> products db (product_id item) = None
      \<and> insert_purchase_order caller db (purchases_order_row now new_id pfd orderItems) = Inr db1
     \<longrightarrow> purchases_handleSubmit caller now new_id pfd orderItems db
          = (Items_error Foreign_key_violation,
             db\<lparr>purchase_orders :=
                  purchase_orders db @ [purchases_order_row now new_id pfd orderItems]\<rparr>))
   \<and> (item \<in> set orderItems \<and> products db (product_id item) = None
      \<and> check_stock loaded orderItems = None
      \<and> insert_sales_order caller db (sales_order_row now new_id sfd orderItems) = Inr db2
     \<longrightarrow> sales_handleSubmit caller now new_id loaded sfd orderItems db
          = (Items_error Foreign_key_violation,
             db\<lparr>sales_orders := sales_orders db @ [sales_order_row now new_id sfd orderItems]\<rparr>))"
proof (intro conjI impI)
  show "purchases_handleSubmit caller now new_id pfd [] db = (No_items, db)"
    by (simp add: purchases_handleSubmit_def)
  show "sales_handleSubmit caller now new_id loaded sfd [] db = (No_items, db)"
    by (simp add: sales_handleSubmit_def)
next
  assume a: "item \<in> set orderItems \<and> products db (product_id item) = None
      \<and> insert_purchase_order caller db (purchases_order_row now new_id pfd orderItems) = Inr db1"
  then have ins: "insert_purchase_order caller db (purchases_order_row now new_id pfd orderItems)
                    = Inr db1"
    by blast
  note db1 = insert_purchase_order_Inr(4) [OF ins]
  have prof: "profiles db1 = profiles db" and prod: "products db1 = products db"
    using db1 by simp_all
  have "rls_permits db caller Purchase_order_items INSERT"
    using insert_purchase_order_Inr(1) [OF ins] by simp
  then have perm: "rls_permits db1 caller Purchase_order_items INSERT"
    by (simp only: rls_permits_profiles [OF prof])
  have "insert_purchase_order_items caller db1 (order_item_rows new_id orderItems)
           = Inl Foreign_key_violation"
    using purchase_items_unknown_product [OF perm, of item orderItems new_id] a prod by simp
  moreover from a have "orderItems \<noteq> []" by auto
  ultimately show "purchases_handleSubmit caller now new_id pfd orderItems db
          = (Items_error Foreign_key_violation,
             db\<lparr>purchase_orders :=
                  purchase_orders db @ [purchases_order_row now new_id pfd orderItems]\<rparr>)"
    using ins db1 by (simp add: purchases_handleSubmit_def)
next
  assume a: "item \<in> set orderItems \<and> products db (product_id item) = None
      \<and> check_stock loaded orderItems = None
      \<and> insert_sales_order caller db (sales_order_row now new_id sfd orderItems) = Inr db2"
  then have ins: "insert_sales_order caller db (sales_order_row now new_id sfd orderItems)
                    = Inr db2"
    by blast
  note db2 = insert_sales_order_Inr(4) [OF ins]
  have prof: "profiles db2 = profiles db" and prod: "products db2 = products db"
    using db2 by simp_all
  have "rls_permits db caller Sales_order_items INSERT"
    using insert_sales_order_Inr(1) [OF ins] by simp
  then have perm: "rls_permits db2 caller Sales_order_items INSERT"
    by (simp only: rls_permits_profiles [OF prof])
  have "insert_sales_order_items caller db2 (order_item_rows new_id orderItems)
           = Inl Foreign_key_violation"
    using sales_items_unknown_product [OF perm, of item orderItems new_id] a prod by simp
  moreover from a have "orderItems \<noteq> []" by auto
  moreover from a have "check_stock loaded orderItems = None" by blast
  ultimately show "sales_handleSubmit caller now new_id loaded sfd orderItems db
          = (Items_error Foreign_key_violation,
             db\<lparr>sales_orders := sales_orders db @ [sales_order_row now new_id sfd orderItems]\<rparr>)"
    using ins db2 by (simp add: sales_handleSubmit_def)
qed

theorem composition_checks_witness:
  "\<lparr>product_id = ''prod-x'', quantity = 1, unit_price = 10\<rparr>
      \<in> set [\<lparr>product_id = ''prod-x'', quantity = 1, unit_price = 10\<rparr>]
   \<and> products shop ''prod-x'' = None
   \<and> check_stock loaded_products [\<lparr>product_id = ''prod-x'', quantity = 1, unit_price = 10\<rparr>] = None
   \<and> purchases_handleSubmit admin 1700000000000 ''po-1'' purchase_form
        [\<lparr>product_id = ''prod-x'', quantity = 1, unit_price = 10\<rparr>] shop
       = (Items_error Foreign_key_violation,
          shop\<lparr>purchase_orders := purchase_orders shop
             @ [purchases_order_row 1700000000000 ''po-1'' purchase_form
                  [\<lparr>product_id = ''prod-x'', quantity = 1, unit_price = 10\<rparr>]]\<rparr>)
   \<and> sales_handleSubmit staff 1700000000000 ''so-1'' loaded_products sale_form
        [\<lparr>product_id = ''prod-x'', quantity = 1, unit_price = 10\<rparr>] shop
       = (Items_error Foreign_key_violation,
          shop\<lparr>sales_orders := sales_orders shop
             @ [sales_order_row 1700000000000 ''so-1'' sale_form
                  [\<lparr>product_id = ''prod-x'', quantity = 1, unit_price = 10\<rparr>]]\<rparr>)"
proof -
  let ?x = "\<lparr>product_id = ''prod-x'', quantity = 1, unit_price = 10\<rparr>"
  have mem: "?x \<in> set [?x]"
    by simp
  have none: "products shop (product_id ?x) = None"
    by (simp add: shop_def)
  have chk: "check_stock loaded_products [?x] = None"
    by (simp add: loaded_products_def)
  have insp: "insert_purchase_order admin shop
                (purchases_order_row 1700000000000 ''po-1'' purchase_form [?x])
              = Inr (shop\<lparr>purchase_orders := purchase_orders shop
                   @ [purchases_order_row 1700000000000 ''po-1'' purchase_form [?x]]\<rparr>)"
    by (simp add: insert_purchase_order_def authenticated_def profile_role_in_def shop_def
        admin_def purchases_order_row_def purchase_form_def)
  have inss: "insert_sales_order staff shop (sales_order_row 1700000000000 ''so-1'' sale_form [?x])
              = Inr (shop\<lparr>sales_orders := sales_orders shop
                   @ [sales_order_row 1700000000000 ''so-1'' sale_form [?x]]\<rparr>)"
    by (simp add: insert_sales_order_def authenticated_def shop_def staff_def
        sales_order_row_def sale_form_def)
  have p: "purchases_handleSubmit admin 1700000000000 ''po-1'' purchase_form [?x] shop
       = (Items_error Foreign_key_violation,
          shop\<lparr>purchase_orders := purchase_orders shop
             @ [purchases_order_row 1700000000000 ''po-1'' purchase_form [?x]]\<rparr>)"
    using composition_checks
      [where caller = admin and now = 1700000000000 and new_id = "''po-1''"
         and pfd = purchase_form and orderItems = "[?x]" and db = shop and item = ?x]
      mem none insp
    by blast
  have s: "sales_handleSubmit staff 1700000000000 ''so-1'' loaded_products sale_form [?x] shop
       = (Items_error Foreign_key_violation,
          shop\<lparr>sales_orders := sales_orders shop
             @ [sales_order_row 1700000000000 ''so-1'' sale_form [?x]]\<rparr>)"
    using composition_checks
      [where caller = staff and now = 1700000000000 and new_id = "''so-1''"
         and loaded = loaded_products and sfd = sale_form and orderItems = "[?x]" and db = shop
         and item = ?x]
      mem none chk inss
    by blast
  from mem none chk p s show ?thesis
    by simp
qed

text \<open>
  The claim's "rejected with no writes" fails for a product that does not exist: an admin
  orders one of an unknown product; the store had no purchase order and has one afterwards.
\<close>

theorem unknown_product_counterexample:
  "products shop ''prod-x'' = None
   \<and> fst (purchases_handleSubmit admin 1700000000000 ''po-1'' purchase_form
            [\<lparr>product_id = ''prod-x'', quantity = 1, unit_price = 10\<rparr>] shop)
       = Items_error Foreign_key_violation
   \<and> purchase_orders shop = []
   \<and> map total_amount
       (purchase_orders (snd (purchases_handleSubmit admin 1700000000000 ''po-1'' purchase_form
            [\<lparr>product_id = ''prod-x'', quantity = 1, unit_price = 10\<rparr>] shop))) = [10]"
  by (simp add: purchases_handleSubmit_def insert_purchase_order_def
      insert_purchase_order_items_def purchases_order_row_def order_item_rows_def
      purchases_calculateTotal_def
      authenticated_def profile_role_in_def shop_def admin_def purchase_form_def)

text \<open>
  Neither handler looks at the sign of a quantity. The sales form refuses a quantity below
  0.01 before the handler runs; the purchase form has no such bound, and a purchase of
  \<open>-5\<close> of product A runs to its end and takes the stock from 5 to 0.
\<close>

lemma negative_purchase_quantity_settles:
  "fst (purchases_handleSubmit admin 1700000000000 ''po-1'' purchase_form
            [\<lparr>product_id = ''prod-a'', quantity = - 5, unit_price = 1000\<rparr>] shop) = Submitted
   \<and> products (snd (purchases_handleSubmit admin 1700000000000 ''po-1'' purchase_form
            [\<lparr>product_id = ''prod-a'', quantity = - 5, unit_price = 1000\<rparr>] shop)) ''prod-a''
       = Some 0"
  by (simp add: purchases_handleSubmit_def insert_purchase_order_def
      insert_purchase_order_items_def purchases_order_row_def order_item_rows_def
      select_stock_quantity_def update_stock_quantity_def
      authenticated_def profile_role_in_def shop_def admin_def purchase_form_def)

section \<open>A discount above the subtotal\<close>

text \<open>
  C8, as the handler has it, for sales whose amounts are whole numbers within the range of
  the store's columns (\<open>exact_sale\<close>). The discount plays no part in how a sale ends:
  changing it to another such discount does not change the outcome. A sale whose discount
  exceeds the subtotal of its lines and that leaves a header in the store leaves it with
  that discount and with the negative total subtotal minus discount.
\<close>

theorem discount_applied_as_is:
  "(exact_sale fd orderItems \<and> exact_sale (fd\<lparr>form_discount := d\<rparr>) orderItems
     \<longrightarrow> fst (sales_handleSubmit caller now new_id loaded (fd\<lparr>form_discount := d\<rparr>)
               orderItems db)
          = fst (sales_handleSubmit caller now new_id loaded fd orderItems db))
   \<and> (exact_sale fd orderItems
      \<and> header_persisted (fst (sales_handleSubmit caller now new_id loaded fd orderItems db))
      \<and> (\<Sum>item\<leftarrow>orderItems. quantity item * unit_price item) < form_discount fd
     \<longrightarrow> (\<exists>hdr. sales_orders (snd (sales_handleSubmit caller now new_id loaded fd orderItems db))
                  = sales_orders db @ [hdr]
            \<and> discount hdr = form_discount fd
            \<and> total_amount hdr
                = (\<Sum>item\<leftarrow>orderItems. quantity item * unit_price item) - form_discount fd
            \<and> total_amount hdr < 0))"
proof (intro conjI impI)
  show "fst (sales_handleSubmit caller now new_id loaded (fd\<lparr>form_discount := d\<rparr>) orderItems db)
     = fst (sales_handleSubmit caller now new_id loaded fd orderItems db)"
    by (rule sales_outcome_discount)
next
  assume a: "exact_sale fd orderItems
      \<and> header_persisted (fst (sales_handleSubmit caller now new_id loaded fd orderItems db))
      \<and> (\<Sum>item\<leftarrow>orderItems. quantity item * unit_price item) < form_discount fd"
  then have "sales_orders (snd (sales_handleSubmit caller now new_id loaded fd orderItems db))
           = sales_orders db @ [sales_order_row now new_id fd orderItems]"
    using sales_header_persisted by blast
  moreover have "discount (sales_order_row now new_id fd orderItems) = form_discount fd"
    by (simp add: sales_order_row_def)
  moreover have "total_amount (sales_order_row now new_id fd orderItems)
      = (\<Sum>item\<leftarrow>orderItems. quantity item * unit_price item) - form_discount fd"
    by (simp add: sales_order_row_def sales_calculateTotal_def calculateSubtotal_sum)
  moreover have "(\<Sum>item\<leftarrow>orderItems. quantity item * unit_price item) - form_discount fd < 0"
    using a by simp
  ultimately show "\<exists>hdr. sales_orders (snd (sales_handleSubmit caller now new_id loaded fd orderItems db))
                  = sales_orders db @ [hdr]
            \<and> discount hdr = form_discount fd
            \<and> total_amount hdr
                = (\<Sum>item\<leftarrow>orderItems. quantity item * unit_price item) - form_discount fd
            \<and> total_amount hdr < 0"
    by simp
qed

theorem discount_applied_as_is_witness:
  "exact_sale sale_form sale_lines
   \<and> exact_sale (sale_form\<lparr>form_discount := 1500\<rparr>) sale_lines
   \<and> fst (sales_handleSubmit admin 1700000000000 ''so-1'' loaded_products
          (sale_form\<lparr>form_discount := 1500\<rparr>) sale_lines shop)
       = fst (sales_handleSubmit admin 1700000000000 ''so-1'' loaded_products sale_form
            sale_lines shop)
   \<and> header_persisted (fst (sales_handleSubmit admin 1700000000000 ''so-1'' loaded_products
          (sale_form\<lparr>form_discount := 1500\<rparr>) sale_lines shop))
   \<and> (\<Sum>item\<leftarrow>sale_lines. quantity item * unit_price item)
        < form_discount (sale_form\<lparr>form_discount := 1500\<rparr>)
   \<and> (\<exists>hdr. sales_orders (snd (sales_handleSubmit admin 1700000000000 ''so-1'' loaded_products
          (sale_form\<lparr>form_discount := 1500\<rparr>) sale_lines shop)) = sales_orders shop @ [hdr]
        \<and> discount hdr = 1500 \<and> total_amount hdr = - 500 \<and> total_amount hdr < 0)"
proof -
  let ?fd = "sale_form\<lparr>form_discount := 1500\<rparr>"
  let ?r = "sales_handleSubmit admin 1700000000000 ''so-1'' loaded_products ?fd sale_lines shop"
  have ex: "exact_sale sale_form sale_lines"
    by (simp add: exact_sale_def column_exact_def whole_def sale_form_def sale_lines_def)
  have ex': "exact_sale ?fd sale_lines"
    by (simp add: exact_sale_def column_exact_def whole_def sale_form_def sale_lines_def)
  have same: "fst ?r
       = fst (sales_handleSubmit admin 1700000000000 ''so-1'' loaded_products sale_form
            sale_lines shop)"
    using discount_applied_as_is
      [where caller = admin and now = 1700000000000 and new_id = "''so-1''"
         and loaded = loaded_products and fd = sale_form and d = 1500
         and orderItems = sale_lines and db = shop]
      ex ex'
    by blast
  have hp: "header_persisted (fst ?r)"
    by (simp add: sales_handleSubmit_def insert_sales_order_def
        insert_sales_order_items_def sales_order_row_def order_item_rows_def
        authenticated_def shop_def admin_def sale_form_def sale_lines_def loaded_products_def)
  have sub: "(\<Sum>item\<leftarrow>sale_lines. quantity item * unit_price item) = 1000"
    by (simp add: sale_lines_def)
  have d: "form_discount ?fd = 1500"
    by simp
  have less: "(\<Sum>item\<leftarrow>sale_lines. quantity item * unit_price item) < form_discount ?fd"
    unfolding sub d by simp
  have "\<exists>hdr. sales_orders (snd ?r) = sales_orders shop @ [hdr]
            \<and> discount hdr = form_discount ?fd
            \<and> total_amount hdr
                = (\<Sum>item\<leftarrow>sale_lines. quantity item * unit_price item) - form_discount ?fd
            \<and> total_amount hdr < 0"
    using discount_applied_as_is
      [where caller = admin and now = 1700000000000 and new_id = "''so-1''"
         and loaded = loaded_products and fd = ?fd and orderItems = sale_lines and db = shop]
      ex' hp less
    by blast
  then have "\<exists>hdr. sales_orders (snd ?r) = sales_orders shop @ [hdr]
        \<and> discount hdr = 1500 \<and> total_amount hdr = - 500 \<and> total_amount hdr < 0"
    unfolding sub d by simp
  with ex ex' same hp less show ?thesis
    by blast
qed

text \<open>
  Subtotal 1000, discount 1500: the sale runs to its end with \<open>total_amount = -500\<close>.
\<close>

theorem discount_over_subtotal_counterexample:
  "fst (sales_handleSubmit admin 1700000000000 ''so-1'' loaded_products
          (sale_form\<lparr>form_discount := 1500\<rparr>) sale_lines shop) = Submitted
   \<and> map discount
       (sales_orders (snd (sales_handleSubmit admin 1700000000000 ''so-1'' loaded_products
          (sale_form\<lparr>form_discount := 1500\<rparr>) sale_lines shop))) = [1500]
   \<and> map total_amount
       (sales_orders (snd (sales_handleSubmit admin 1700000000000 ''so-1'' loaded_products
          (sale_form\<lparr>form_discount := 1500\<rparr>) sale_lines shop))) = [- 500]"
  by (simp add: sales_handleSubmit_def insert_sales_order_def insert_sales_order_items_def
      sales_order_row_def order_item_rows_def authenticated_def profile_role_in_def
      select_stock_quantity_def update_stock_quantity_def
      sales_calculateTotal_def calculateSubtotal_def
      shop_def admin_def sale_form_def sale_lines_def loaded_products_def)

section \<open>Order numbers\<close>

text \<open>
  C9, as the handlers have it. The number of a persisted purchase order is \<open>NH\<close> followed by
  the decimal digits of the clock value, that of a sales order \<open>BH\<close> followed by them. Two
  generated numbers are equal exactly when kind and clock value are equal, so two orders
  of one kind composed in the same millisecond get the same number; the store's unique
  constraint refuses the second header, and the numbers in each table stay distinct.
\<close>

theorem order_number_form:
  "(header_persisted (fst (purchases_handleSubmit caller now new_id pfd orderItems db)) \<longrightarrow>
      order_number (last (purchase_orders
          (snd (purchases_handleSubmit caller now new_id pfd orderItems db))))
        = ''NH'' @ string_of_nat now)
   \<and> (header_persisted (fst (sales_handleSubmit caller now new_id loaded sfd orderItems db)) \<longrightarrow>
      order_number (last (sales_orders
          (snd (sales_handleSubmit caller now new_id loaded sfd orderItems db))))
        = ''BH'' @ string_of_nat now)
   \<and> (purchases_orderNumber t = purchases_orderNumber t') = (t = t')
   \<and> (sales_orderNumber t = sales_orderNumber t') = (t = t')
   \<and> purchases_orderNumber t \<noteq> sales_orderNumber t'
   \<and> (distinct (map order_number (purchase_orders db)) \<longrightarrow>
        distinct (map order_number (purchase_orders
          (snd (purchases_handleSubmit caller now new_id pfd orderItems db)))))
   \<and> (distinct (map order_number (sales_orders db)) \<longrightarrow>
        distinct (map order_number (sales_orders
          (snd (sales_handleSubmit caller now new_id loaded sfd orderItems db)))))"
proof (intro conjI impI)
  assume "header_persisted (fst (purchases_handleSubmit caller now new_id pfd orderItems db))"
  then show "order_number (last (purchase_orders
          (snd (purchases_handleSubmit caller now new_id pfd orderItems db))))
        = ''NH'' @ string_of_nat now"
    by (simp add: purchases_orders_after purchases_order_row_def purchases_orderNumber_def)
next
  assume "header_persisted (fst (sales_handleSubmit caller now new_id loaded sfd orderItems db))"
  then show "order_number (last (sales_orders
          (snd (sales_handleSubmit caller now new_id loaded sfd orderItems db))))
        = ''BH'' @ string_of_nat now"
    by (simp add: sales_orders_after sales_order_row_def sales_orderNumber_def)
next
  show "(purchases_orderNumber t = purchases_orderNumber t') = (t = t')"
    using string_of_nat_inj [of t t'] by (auto simp: purchases_orderNumber_def)
  show "(sales_orderNumber t = sales_orderNumber t') = (t = t')"
    using string_of_nat_inj [of t t'] by (auto simp: sales_orderNumber_def)
  show "purchases_orderNumber t \<noteq> sales_orderNumber t'"
    by (simp add: purchases_orderNumber_def sales_orderNumber_def)
next
  assume "distinct (map order_number (purchase_orders db))"
  then show "distinct (map order_number (purchase_orders
          (snd (purchases_handleSubmit caller now new_id pfd orderItems db))))"
    using purchases_number_fresh [of caller now new_id pfd orderItems db]
    by (simp add: purchases_orders_after purchases_order_row_def)
next
  assume "distinct (map order_number (sales_orders db))"
  then show "distinct (map order_number (sales_orders
          (snd (sales_handleSubmit caller now new_id loaded sfd orderItems db))))"
    using sales_number_fresh [of caller now new_id loaded sfd orderItems db]
    by (simp add: sales_orders_after sales_order_row_def)
qed

theorem order_number_form_witness:
  "header_persisted
     (fst (purchases_handleSubmit admin 1700000000000 ''po-1'' purchase_form purchase_lines shop))
   \<and> order_number (last (purchase_orders
        (snd (purchases_handleSubmit admin 1700000000000 ''po-1'' purchase_form purchase_lines
           shop)))) = ''NH1700000000000''
   \<and> header_persisted
     (fst (sales_handleSubmit admin 1700000000000 ''so-1'' loaded_products sale_form sale_lines
        shop))
   \<and> order_number (last (sales_orders
        (snd (sales_handleSubmit admin 1700000000000 ''so-1'' loaded_products sale_form
           sale_lines shop)))) = ''BH1700000000000''
   \<and> distinct (map order_number (purchase_orders shop))
   \<and> distinct (map order_number (purchase_orders
        (snd (purchases_handleSubmit admin 1700000000000 ''po-1'' purchase_form purchase_lines
           shop))))
   \<and> distinct (map order_number (sales_orders shop))
   \<and> distinct (map order_number (sales_orders
        (snd (sales_handleSubmit admin 1700000000000 ''so-1'' loaded_products sale_form
           sale_lines shop))))"
proof -
  let ?p = "purchases_handleSubmit admin 1700000000000 ''po-1'' purchase_form purchase_lines shop"
  let ?s = "sales_handleSubmit admin 1700000000000 ''so-1'' loaded_products sale_form sale_lines
              shop"
  have p: "header_persisted (fst ?p)"
    by (simp add: purchases_handleSubmit_def insert_purchase_order_def
        insert_purchase_order_items_def purchases_order_row_def order_item_rows_def
        authenticated_def profile_role_in_def shop_def admin_def purchase_form_def
        purchase_lines_def)
  have s: "header_persisted (fst ?s)"
    by (simp add: sales_handleSubmit_def insert_sales_order_def
        insert_sales_order_items_def sales_order_row_def order_item_rows_def
        authenticated_def shop_def admin_def sale_form_def sale_lines_def loaded_products_def)
  have dp: "distinct (map order_number (purchase_orders shop))"
    and ds: "distinct (map order_number (sales_orders shop))"
    by (simp_all add: shop_def)
  have digits: "string_of_nat 1700000000000 = ''1700000000000''"
    by (simp add: string_of_nat.simps digit_char_def)
  note form = order_number_form
    [where caller = admin and now = 1700000000000 and new_id = "''po-1''"
       and pfd = purchase_form and orderItems = purchase_lines and db = shop]
  note form' = order_number_form
    [where caller = admin and now = 1700000000000 and new_id = "''so-1''"
       and loaded = loaded_products and sfd = sale_form and orderItems = sale_lines
       and db = shop]
  have "order_number (last (purchase_orders (snd ?p))) = ''NH'' @ string_of_nat 1700000000000"
    using form p by blast
  then have np: "order_number (last (purchase_orders (snd ?p))) = ''NH1700000000000''"
    unfolding digits by simp
  have "order_number (last (sales_orders (snd ?s))) = ''BH'' @ string_of_nat 1700000000000"
    using form' s by blast
  then have ns: "order_number (last (sales_orders (snd ?s))) = ''BH1700000000000''"
    unfolding digits by simp
  have dp': "distinct (map order_number (purchase_orders (snd ?p)))"
    using form dp by blast
  have ds': "distinct (map order_number (sales_orders (snd ?s)))"
    using form' ds by blast
  from p np s ns dp dp' ds ds' show ?thesis
    by blast
qed

text \<open>The prefixes are not \<open>PO\<close> and \<open>SO\<close>.\<close>

theorem order_number_prefix_counterexample:
  "sales_orderNumber 1700000000000 = ''BH1700000000000''
   \<and> purchases_orderNumber 1700000000000 = ''NH1700000000000''
   \<and> take 2 (sales_orderNumber 1700000000000) \<noteq> ''SO''
   \<and> take 2 (purchases_orderNumber 1700000000000) \<noteq> ''PO''"
proof -
  have "string_of_nat 1700000000000 = ''1700000000000''"
    by (simp add: string_of_nat.simps digit_char_def)
  then show ?thesis
    by (simp add: sales_orderNumber_def purchases_orderNumber_def)
qed

end
